theory Spec2Isabelle
  imports Main
begin

section \<open>Python values, errors and strings\<close>

text \<open>
  The emitter of RuleChef (\<^verbatim>\<open>src/emit.py\<close>, \<^verbatim>\<open>src/tokens.py\<close>) is a Python program
  that builds C++ text. Every exception the Python code can raise is a value of
  \<open>error\<close>; a function that can raise returns \<open>error + 'a\<close> with \<open>Inl\<close> the
  exception. Exceptions are never caught in the source, so the first one ends the run.
\<close>

datatype error =
    ValueError
  | AttributeError
  | TypeError
  | IndexError
  | AssertionError
  | NotImplementedError
  | NameError

definition ebind :: "error + 'a \<Rightarrow> ('a \<Rightarrow> error + 'b) \<Rightarrow> error + 'b" where
  "ebind m f = (case m of Inl e \<Rightarrow> Inl e | Inr x \<Rightarrow> f x)"

lemma ebind_Inl [simp]: "ebind (Inl e) f = Inl e"
  by (simp add: ebind_def)

lemma ebind_Inr [simp]: "ebind (Inr x) f = f x"
  by (simp add: ebind_def)

lemma ebind_cong [fundef_cong]:
  "m = m' \<Longrightarrow> (\<And>x. m' = Inr x \<Longrightarrow> f x = f' x) \<Longrightarrow> ebind m f = ebind m' f'"
  by (cases m') (simp_all add: ebind_def)

lemma ebind_eq_Inr: "ebind m f = Inr y \<longleftrightarrow> (\<exists>x. m = Inr x \<and> f x = Inr y)"
  by (cases m) simp_all

text \<open>\<open>str(i)\<close> of a non-negative Python int, as the f-strings of the source format it.\<close>

definition digit_char :: "nat \<Rightarrow> char" where
  "digit_char d = ''0123456789'' ! d"

function str_nat :: "nat \<Rightarrow> string" where
  "str_nat n = (if n < 10 then [digit_char n] else str_nat (n div 10) @ [digit_char (n mod 10)])"
  by pat_completeness auto
termination
  by (relation "measure (\<lambda>n. n)") auto

declare str_nat.simps [simp del]

definition str_int :: "int \<Rightarrow> string" where
  "str_int i = (if i < 0 then ''-'' @ str_nat (nat (- i)) else str_nat (nat i))"

text \<open>\<open>' ' * n\<close>\<close>

definition spaces :: "nat \<Rightarrow> string" where
  "spaces n = replicate n (CHR '' '')"

text \<open>\<open>sep.join(xs)\<close>\<close>

fun join :: "string \<Rightarrow> string list \<Rightarrow> string" where
  "join sep [] = []"
| "join sep [x] = x"
| "join sep (x # y # ys) = x @ sep @ join sep (y # ys)"

text \<open>\<open>s.lower()\<close> on ASCII text, and \<open>s.rsplit("_", 1)[-1]\<close>.\<close>

definition lower_char :: "char \<Rightarrow> char" where
  "lower_char c =
     (case map_of (zip ''ABCDEFGHIJKLMNOPQRSTUVWXYZ'' ''abcdefghijklmnopqrstuvwxyz'') c of
        Some d \<Rightarrow> d
      | None \<Rightarrow> c)"

definition lower :: "string \<Rightarrow> string" where
  "lower s = map lower_char s"

definition rsplit_last :: "string \<Rightarrow> string" where
  "rsplit_last s = rev (takeWhile (\<lambda>c. c \<noteq> CHR ''_'') (rev s))"

definition startswith :: "string \<Rightarrow> string \<Rightarrow> bool" where
  "startswith s p = (take (length p) s = p)"

section \<open>The token model (\<^verbatim>\<open>tokens.py\<close>)\<close>

definition COMMUTATIVE_OP_NAMES :: "string list" where
  "COMMUTATIVE_OP_NAMES =
     [''INT_EQUAL'', ''INT_NOTEQUAL'', ''INT_ADD'', ''INT_XOR'', ''INT_AND'', ''INT_OR'',
      ''INT_MULT'', ''BOOL_XOR'', ''BOOL_AND'', ''BOOL_OR'', ''FLOAT_EQUAL'', ''FLOAT_NOTEQUAL'',
      ''FLOAT_ADD'', ''FLOAT_MULT'']"

text \<open>The eight subclasses of \<open>TOK_BINARY_OPERATION\<close>, with their \<open>_c_token\<close>.\<close>

datatype binop =
    TOK_BINOP_ADD
  | TOK_BINOP_SUB
  | TOK_BINOP_MULT
  | TOK_BINOP_AND
  | TOK_BINOP_OR
  | TOK_BINOP_XOR
  | TOK_BINOP_LSHIFT
  | TOK_BINOP_RSHIFT

fun c_token :: "binop \<Rightarrow> string" where
  "c_token TOK_BINOP_ADD = ''+''"
| "c_token TOK_BINOP_SUB = ''-''"
| "c_token TOK_BINOP_MULT = ''*''"
| "c_token TOK_BINOP_AND = ''&''"
| "c_token TOK_BINOP_OR = ''|''"
| "c_token TOK_BINOP_XOR = ''^''"
| "c_token TOK_BINOP_LSHIFT = ''<<''"
| "c_token TOK_BINOP_RSHIFT = ''>>''"

text \<open>
  The token classes. \<open>TOK_NUMBER val size\<close> keeps \<open>_val_repr\<close> and \<open>_size\<close>; its
  constructor leaves \<open>_size\<close> as it was given, which is either a Python \<open>str\<close>
  (\<open>SizeStr s n\<close>, with \<open>n = int(s, 0)\<close> the stored \<open>_size_val\<close>) or a token
  (\<open>SizeTok t\<close>, with \<open>_size_val = None\<close>). The field \<open>_val\<close> is never read.
  \<open>TOK_BINARY_OPERATION\<close> has the class attribute \<open>_size = 8\<close>, a Python int.
\<close>

datatype token =
    TOK_VAR string
  | TOK_SIZEOF token
  | TOK_NUMBER string num_size
  | TOK_BINARY_OPERATION binop token token
  | TOK_OPCODE string "token list"
  | TOK_OPCODE_OR "token list"
and num_size =
    SizeStr string int
  | SizeTok token

text \<open>
  \<open>TOK_CONSTRAINT\<close>: \<open>_left\<close>, \<open>_comparison_op\<close>, \<open>_right\<close> and the mutable
  \<open>_or_func_name\<close> (\<open>None\<close> until \<open>to_check_c\<close> sets it).
\<close>

datatype tok_constraint = TOK_CONSTRAINT token string token "string option"

text \<open>\<open>to_c\<close>: \<open>TOK_OPCODE\<close> and \<open>TOK_OPCODE_OR\<close> inherit \<open>Token.to_c\<close>, which raises.\<close>

fun to_c :: "token \<Rightarrow> error + string" where
  "to_c (TOK_VAR name) = Inr name"
| "to_c (TOK_SIZEOF v) = ebind (to_c v) (\<lambda>s. Inr (s @ ''->getSize()''))"
| "to_c (TOK_NUMBER val_repr sz) = Inr val_repr"
| "to_c (TOK_BINARY_OPERATION k l r) =
     ebind (to_c l) (\<lambda>a. ebind (to_c r) (\<lambda>b.
       Inr (''('' @ a @ '' '' @ c_token k @ '' '' @ b @ '')'')))"
| "to_c (TOK_OPCODE name args) = Inl NotImplementedError"
| "to_c (TOK_OPCODE_OR elements) = Inl NotImplementedError"

text \<open>\<open>TOK_NUMBER.size_to_c\<close>; no other class has the method.\<close>

fun size_to_c :: "token \<Rightarrow> error + string" where
  "size_to_c (TOK_NUMBER val_repr (SizeStr s n)) = Inr s"
| "size_to_c (TOK_NUMBER val_repr (SizeTok (TOK_SIZEOF v))) = to_c (TOK_SIZEOF v)"
| "size_to_c (TOK_NUMBER val_repr (SizeTok t)) = Inl AssertionError"
| "size_to_c t = Inl AttributeError"

fun to_pretty :: "token \<Rightarrow> string" where
  "to_pretty (TOK_VAR name) =
     (if startswith name ''autovar_'' then drop (length ''autovar_'') name else name)"
| "to_pretty (TOK_SIZEOF v) = ''|'' @ to_pretty v @ ''|''"
| "to_pretty (TOK_NUMBER val_repr (SizeStr s n)) =
     (if n = 8 then val_repr else val_repr @ '':'' @ s)"
| "to_pretty (TOK_NUMBER val_repr (SizeTok t)) = val_repr @ '':'' @ to_pretty t"
| "to_pretty (TOK_BINARY_OPERATION k l r) =
     to_pretty l @ '' '' @ c_token k @ '' '' @ to_pretty r @ '')''"
| "to_pretty (TOK_OPCODE name args) = name @ ''('' @ join '', '' (map to_pretty args) @ '')''"
| "to_pretty (TOK_OPCODE_OR elements) = join '' | '' (map to_pretty elements)"

text \<open>\<open>get_variables\<close>: the generators, as the list of what they yield, in order.\<close>

fun get_variables :: "token \<Rightarrow> token list" where
  "get_variables (TOK_VAR name) = [TOK_VAR name]"
| "get_variables (TOK_SIZEOF v) = [v]"
| "get_variables (TOK_NUMBER val_repr (SizeStr s n)) = []"
| "get_variables (TOK_NUMBER val_repr (SizeTok t)) = get_variables t"
| "get_variables (TOK_BINARY_OPERATION k l r) = get_variables l @ get_variables r"
| "get_variables (TOK_OPCODE name args) = concat (map get_variables args)"
| "get_variables (TOK_OPCODE_OR elements) = concat (map get_variables elements)"

section \<open>The emitter state and the fresh-name generator (\<^verbatim>\<open>emit.py\<close>)\<close>

record emitter =
  variables :: "string set"
  declared_vars :: "string set"

definition Emitter_init :: emitter where
  "Emitter_init = \<lparr>variables = {}, declared_vars = {}\<rparr>"

text \<open>
  \<open>_get_free_name\<close>: the loop \<open>for i in range(1000)\<close>, from index \<open>i\<close> on; \<open>None\<close>
  is the loop running out, after which the source raises \<open>ValueError\<close>.
\<close>

function get_free_name_from :: "string set \<Rightarrow> string \<Rightarrow> nat \<Rightarrow> string option" where
  "get_free_name_from vs prefix i =
     (if 1000 \<le> i then None
      else if prefix @ ''_'' @ str_nat i \<notin> vs then Some (prefix @ ''_'' @ str_nat i)
      else get_free_name_from vs prefix (i + 1))"
  by pat_completeness auto
termination
  by (relation "measure (\<lambda>(vs, prefix, i). 1000 - i)") auto

declare get_free_name_from.simps [simp del]

definition get_free_name :: "emitter \<Rightarrow> string \<Rightarrow> error + string \<times> emitter" where
  "get_free_name e prefix =
     (case get_free_name_from (variables e) prefix 0 of
        None \<Rightarrow> Inl ValueError
      | Some name \<Rightarrow> Inr (name, e\<lparr>variables := insert name (variables e)\<rparr>))"

text \<open>\<open>parse_variable\<close> of \<^verbatim>\<open>parser.py\<close>, on a word the grammar's \<open>variable\<close> matched.\<close>

definition variable_chars :: "char set" where
  "variable_chars = set ''abcdefghijklmnopqrstuvwxyz_''"

definition parse_variable :: "string \<Rightarrow> token" where
  "parse_variable w = TOK_VAR (''autovar_'' @ w)"

section \<open>Match-side emission\<close>

definition emit_declare_var :: "emitter \<Rightarrow> token \<Rightarrow> error + string \<times> emitter" where
  "emit_declare_var e variable =
     ebind (to_c variable) (\<lambda>c.
       Inr (''  Varnode* '' @ c @ '';\<newline>'', e\<lparr>declared_vars := insert c (declared_vars e)\<rparr>))"

definition emit_create_varnode :: "emitter \<Rightarrow> string \<Rightarrow> string \<Rightarrow> nat \<Rightarrow> string" where
  "emit_create_varnode e var_name var_source num_indent =
     spaces num_indent
       @ (if var_name \<notin> declared_vars e then ''Varnode* '' else [])
       @ var_name @ '' = '' @ var_source @ '';\<newline>''"

definition emit_check :: "string \<Rightarrow> string \<Rightarrow> string \<Rightarrow> nat \<Rightarrow> string" where
  "emit_check l op r num_indent =
     spaces num_indent @ ''if ('' @ l @ '' '' @ op @ '' '' @ r @ '') return 0;\<newline>''"

definition emit_check_equality :: "string \<Rightarrow> string \<Rightarrow> nat \<Rightarrow> string" where
  "emit_check_equality name_a name_b num_indent = emit_check name_a ''!='' name_b num_indent"

definition emit_check_is_constant :: "string \<Rightarrow> nat \<Rightarrow> string" where
  "emit_check_is_constant varnode_name num_indent =
     spaces num_indent @ ''if ((! '' @ varnode_name @ ''->isConstant()) return 0;''"

text \<open>
  The \<open>const_val\<close> parameter of the constant checks is dynamically typed: the match side
  passes a token, \<open>TOK_CONSTRAINT.to_check_c\<close> passes the \<open>str\<close> that \<open>to_c()\<close>
  returned.
\<close>

datatype pyarg = CTok token | CStr string

text \<open>
  \<open>_emit_check_constant\<close>. The test \<open>const_val._size == 8\<close> compares with the Python
  int 8: it holds for a \<open>TOK_BINARY_OPERATION\<close> (class attribute \<open>_size = 8\<close>) and for
  no \<open>TOK_NUMBER\<close>, whose \<open>_size\<close> is a \<open>str\<close> or a token. On the other branch
  \<open>const_val._size.to_c()\<close> is evaluated, which a \<open>str\<close> does not have. A \<open>str\<close>
  and the remaining token classes have no attribute \<open>_size\<close>.
\<close>

fun emit_check_constant :: "string \<Rightarrow> string \<Rightarrow> pyarg \<Rightarrow> nat \<Rightarrow> error + string" where
  "emit_check_constant varnode_name op (CTok (TOK_BINARY_OPERATION k l r)) num_indent =
     ebind (to_c (TOK_BINARY_OPERATION k l r)) (\<lambda>c.
       Inr (spaces num_indent @ ''if ((! '' @ varnode_name @ ''->isConstant()) || (''
              @ varnode_name @ ''->getOffset() '' @ op @ '' '' @ c @ '')) return 0;\<newline>''))"
| "emit_check_constant varnode_name op (CTok (TOK_NUMBER val_repr (SizeStr s n))) num_indent =
     Inl AttributeError"
| "emit_check_constant varnode_name op (CTok (TOK_NUMBER val_repr (SizeTok t))) num_indent =
     ebind (to_c t) (\<lambda>sc.
       Inr (spaces num_indent @ ''uintb masked_const = '' @ val_repr
              @ '' & ((((uintb) 1) << (8 * '' @ sc @ '')) - 1);\<newline>''
              @ spaces num_indent @ ''if ((! '' @ varnode_name @ ''->isConstant()) || (''
              @ varnode_name @ ''->getOffset() '' @ op @ '' masked_const)) return 0;\<newline>''))"
| "emit_check_constant varnode_name op const_val num_indent = Inl AttributeError"

text \<open>\<open>_emit_check_constant_equal\<close>, with the same test and the same two branches.\<close>

fun emit_check_constant_equal :: "string \<Rightarrow> pyarg \<Rightarrow> nat \<Rightarrow> error + string" where
  "emit_check_constant_equal varnode_name (CTok (TOK_BINARY_OPERATION k l r)) num_indent =
     ebind (to_c (TOK_BINARY_OPERATION k l r)) (\<lambda>c.
       Inr (spaces num_indent @ ''if (! '' @ varnode_name @ ''->constantMatch('' @ c
              @ '')) return 0;\<newline>''))"
| "emit_check_constant_equal varnode_name (CTok (TOK_NUMBER val_repr (SizeStr s n))) num_indent =
     Inl AttributeError"
| "emit_check_constant_equal varnode_name (CTok (TOK_NUMBER val_repr (SizeTok t))) num_indent =
     ebind (to_c t) (\<lambda>sc.
       Inr (spaces num_indent @ ''uintb masked_const = '' @ val_repr
              @ '' & ((((uintb) 1) << (8 * '' @ sc @ '')) - 1);\<newline>''
              @ spaces num_indent @ ''if (! '' @ varnode_name
              @ ''->constantMatch(masked_const)) return 0;\<newline>''))"
| "emit_check_constant_equal varnode_name const_val num_indent = Inl AttributeError"

definition emit_check_constant_greater :: "string \<Rightarrow> pyarg \<Rightarrow> nat \<Rightarrow> error + string" where
  "emit_check_constant_greater varnode_name const_val num_indent =
     emit_check_constant varnode_name ''<='' const_val num_indent"

definition emit_check_constant_less :: "string \<Rightarrow> pyarg \<Rightarrow> nat \<Rightarrow> error + string" where
  "emit_check_constant_less varnode_name const_val num_indent =
     emit_check_constant varnode_name ''>='' const_val num_indent"

text \<open>
  The operand an argument is checked against: \<open>(varnode_left_name, varnode_right_name)[i]\<close>
  inside a commutative helper, \<open>target->getIn(i)\<close> otherwise.
\<close>

fun target_arg :: "string \<Rightarrow> (string \<times> string) option \<Rightarrow> nat \<Rightarrow> error + string" where
  "target_arg target None i = Inr (target @ ''->getIn('' @ str_nat i @ '')'')"
| "target_arg target (Some (l, r)) i =
     (if i = 0 then Inr l else if i = 1 then Inr r else Inl IndexError)"

text \<open>
  The text \<open>_emit_check_opcode\<close> puts before the checks of the children, the comment
  line \<open>_emit_check_opcode_children\<close> starts with, and the opening and the closing
  text of the helper it emits for a commutative opcode (the outer guard included).
\<close>

definition check_opcode_text :: "string \<Rightarrow> string \<Rightarrow> string \<Rightarrow> nat \<Rightarrow> string" where
  "check_opcode_text vc pcode_varname name num_indent =
     spaces num_indent @ ''if (! '' @ vc @ ''->isWritten()) return 0;\<newline>''
       @ spaces num_indent @ ''PcodeOp* '' @ pcode_varname @ '' = '' @ vc @ ''->getDef();\<newline>''
       @ emit_check_equality (pcode_varname @ ''->code()'') (''CPUI_'' @ name) num_indent"

definition checks_comment :: "token \<Rightarrow> nat \<Rightarrow> string" where
  "checks_comment opcode indentation =
     ''\<newline>'' @ spaces indentation @ ''// Checks '' @ to_pretty opcode @ ''\<newline>''"

definition lambda_open :: "string \<Rightarrow> string \<Rightarrow> string \<Rightarrow> nat \<Rightarrow> string" where
  "lambda_open check_lambda_name varnode_left_name varnode_right_name indentation =
     spaces indentation @ ''auto '' @ check_lambda_name @ '' = [&](Varnode* ''
       @ varnode_left_name @ '', Varnode* '' @ varnode_right_name @ '') -> int4 {\<newline>''"

definition lambda_guard :: "string \<Rightarrow> string \<Rightarrow> string \<Rightarrow> nat \<Rightarrow> string" where
  "lambda_guard check_lambda_name name_a name_b indentation =
     spaces indentation @ ''if ((! '' @ check_lambda_name @ ''('' @ name_a @ '', '' @ name_b
       @ '')) && (! '' @ check_lambda_name @ ''('' @ name_b @ '', '' @ name_a @ '')))\<newline>''
       @ spaces indentation @ ''  return 0;\<newline>''"

definition lambda_close ::
  "emitter \<Rightarrow> string \<Rightarrow> string \<Rightarrow> string \<Rightarrow> string \<Rightarrow> nat \<Rightarrow> string" where
  "lambda_close e target check_lambda_name name_a name_b indentation =
     spaces indentation @ ''  return 1;\<newline>''
       @ spaces indentation @ ''};\<newline>\<newline>''
       @ emit_create_varnode e name_a (target @ ''->getIn(0)'') indentation
       @ emit_create_varnode e name_b (target @ ''->getIn(1)'') indentation
       @ lambda_guard check_lambda_name name_a name_b indentation"

text \<open>
  \<open>_emit_check_opcode\<close> and \<open>_emit_check_opcode_children\<close>, which call each other.
  \<open>emit_check_args\<close> is the loop \<open>for i, arg in enumerate(opcode._args)\<close> from index
  \<open>i\<close> on, and \<open>emit_check_arg\<close> its body after \<open>target_arg\<close> is computed: the
  \<open>isinstance\<close> chain. \<open>comm\<close> holds the two helper parameters when the opcode is
  commutative. A token that is no \<open>TOK_OPCODE\<close> has no \<open>_args\<close>.
\<close>

function (sequential) emit_check_opcode :: "emitter \<Rightarrow> token \<Rightarrow> token \<Rightarrow> nat \<Rightarrow> error + string \<times> emitter"
  and emit_check_opcode_children ::
    "emitter \<Rightarrow> string \<Rightarrow> token \<Rightarrow> nat \<Rightarrow> error + string \<times> emitter"
  and emit_check_args ::
    "emitter \<Rightarrow> string \<Rightarrow> (string \<times> string) option \<Rightarrow> nat \<Rightarrow> token list \<Rightarrow> nat
       \<Rightarrow> error + string \<times> emitter"
  and emit_check_arg ::
    "emitter \<Rightarrow> string \<Rightarrow> bool \<Rightarrow> token \<Rightarrow> nat \<Rightarrow> error + string \<times> emitter"
where
  "emit_check_opcode e varnode (TOK_OPCODE name args) num_indent =
     ebind (to_c varnode) (\<lambda>vc.
     ebind (get_free_name e ''temp_pcode'') (\<lambda>(pcode_varname, e1).
     ebind (emit_check_opcode_children e1 pcode_varname (TOK_OPCODE name args) num_indent)
       (\<lambda>(children, e2).
         Inr (check_opcode_text vc pcode_varname name num_indent @ children, e2))))"
| "emit_check_opcode e varnode opcode num_indent =
     ebind (to_c varnode) (\<lambda>vc.
     ebind (get_free_name e ''temp_pcode'') (\<lambda>(pcode_varname, e1). Inl AttributeError))"
| "emit_check_opcode_children e target (TOK_OPCODE name args) indentation =
     (if name \<in> set COMMUTATIVE_OP_NAMES then
        ebind (get_free_name e (''check_'' @ rsplit_last (lower name))) (\<lambda>(check_lambda_name, e1).
        ebind (get_free_name e1 ''autovar_left'') (\<lambda>(varnode_left_name, e2).
        ebind (get_free_name e2 ''autovar_right'') (\<lambda>(varnode_right_name, e3).
        ebind (emit_check_args e3 target (Some (varnode_left_name, varnode_right_name)) 0 args
                 (indentation + 2)) (\<lambda>(body, e4).
        ebind (get_free_name e4 ''autovar'') (\<lambda>(name_a, e5).
        ebind (get_free_name e5 ''autovar'') (\<lambda>(name_b, e6).
          Inr (checks_comment (TOK_OPCODE name args) indentation
                 @ lambda_open check_lambda_name varnode_left_name varnode_right_name indentation
                 @ body
                 @ lambda_close e6 target check_lambda_name name_a name_b indentation, e6)))))))
      else
        ebind (emit_check_args e target None 0 args indentation) (\<lambda>(body, e1).
          Inr (checks_comment (TOK_OPCODE name args) indentation @ body, e1)))"
| "emit_check_opcode_children e target opcode indentation = Inl AttributeError"
| "emit_check_args e target comm i [] indentation = Inr ([], e)"
| "emit_check_args e target comm i (arg # rest) indentation =
     ebind (target_arg target comm i) (\<lambda>t.
     ebind (emit_check_arg e t (comm \<noteq> None) arg indentation) (\<lambda>(out, e1).
     ebind (emit_check_args e1 target comm (i + 1) rest indentation) (\<lambda>(out', e2).
       Inr (out @ ''\<newline>'' @ out', e2))))"
| "emit_check_arg e t is_commutative (TOK_VAR var_name) indentation =
     (if var_name \<in> variables e then Inr (emit_check_equality t var_name indentation, e)
      else Inr (emit_create_varnode e var_name t indentation,
                e\<lparr>variables := insert var_name (variables e)\<rparr>))"
| "emit_check_arg e t is_commutative (TOK_BINARY_OPERATION k l r) indentation =
     ebind (emit_check_constant_equal t (CTok (TOK_BINARY_OPERATION k l r)) indentation)
       (\<lambda>out. Inr (out, e))"
| "emit_check_arg e t is_commutative (TOK_OPCODE name args) indentation =
     (if is_commutative then emit_check_opcode e (TOK_VAR t) (TOK_OPCODE name args) indentation
      else
        ebind (get_free_name e ''autovar'') (\<lambda>(varnode_name, e1).
        ebind (emit_check_opcode e1 (TOK_VAR varnode_name) (TOK_OPCODE name args) indentation)
          (\<lambda>(out, e2). Inr (emit_create_varnode e1 varnode_name t indentation @ out, e2))))"
| "emit_check_arg e t is_commutative (TOK_NUMBER val_repr sz) indentation =
     ebind (emit_check_constant_equal t (CTok (TOK_NUMBER val_repr sz)) indentation)
       (\<lambda>out. Inr (out, e))"
| "emit_check_arg e t is_commutative arg indentation = Inl ValueError"
  by pat_completeness auto
termination
  by (relation "measure (\<lambda>x. case x of
        Inl (Inl (e, varnode, opcode, n)) \<Rightarrow> 4 * size opcode + 2
      | Inl (Inr (e, target, opcode, n)) \<Rightarrow> 4 * size opcode + 1
      | Inr (Inl (e, target, comm, i, args, n)) \<Rightarrow> 4 * size_list size args
      | Inr (Inr (e, t, b, arg, n)) \<Rightarrow> 4 * size arg + 3)") simp_all

section \<open>Size inference (\<^verbatim>\<open>tokens.py\<close>)\<close>

text \<open>
  What \<open>get_size\<close> can return: \<open>None\<close>, an int, or a tuple. \<open>py_add\<close> is Python's
  \<open>+\<close> on these values, and \<open>py_str\<close> is how an f-string prints them.
\<close>

datatype pyval = PyNone | PyInt int | PyTuple "pyval list"

fun py_add :: "pyval \<Rightarrow> pyval \<Rightarrow> error + pyval" where
  "py_add (PyInt a) (PyInt b) = Inr (PyInt (a + b))"
| "py_add (PyTuple a) (PyTuple b) = Inr (PyTuple (a @ b))"
| "py_add a b = Inl TypeError"

fun py_str :: "pyval \<Rightarrow> string" where
  "py_str PyNone = ''None''"
| "py_str (PyInt i) = str_int i"
| "py_str (PyTuple [x]) = ''('' @ py_str x @ '',)''"
| "py_str (PyTuple xs) = ''('' @ join '', '' (map py_str xs) @ '')''"

definition SAME_SIZE_OP_NAMES :: "string list" where
  "SAME_SIZE_OP_NAMES =
     [''COPY'', ''INT_ADD'', ''INT_SUB'', ''INT_2COMP'', ''INT_NEGATE'',
      ''INT_XOR'', ''INT_AND'', ''INT_OR'', ''INT_LEFT'', ''INT_RIGHT'',
      ''INT_SRIGHT'', ''INT_MULT'', ''INT_DIV'', ''INT_REM'', ''INT_SDIV'',
      ''INT_SREM'', ''FLOAT_ADD'', ''FLOAT_SUB'', ''FLOAT_MULT'', ''FLOAT_DIV'',
      ''FLOAT_NEG'', ''FLOAT_ABS'', ''FLOAT_SQRT'', ''FLOAT_CEIL'',
      ''FLOAT_FLOOR'', ''FLOAT_ROUND'']"

definition BOOLEAN_OP_NAMES :: "string list" where
  "BOOLEAN_OP_NAMES =
     [''INT_EQUAL'', ''INT_NOTEQUAL'', ''INT_LESS'', ''INT_SLESS'',
      ''INT_LESSEQUAL'', ''INT_SLESSEQUAL'', ''INT_CARRY'', ''INT_SCARRY'',
      ''INT_SBORROW'', ''BOOL_NEGATE'', ''BOOL_XOR'', ''BOOL_AND'', ''BOOL_OR'',
      ''FLOAT_EQUAL'', ''FLOAT_NOTEQUAL'', ''FLOAT_LESS'', ''FLOAT_LESSEQUAL'',
      ''FLOAT_NAN'']"

text \<open>
  \<open>get_size\<close> of each class. \<open>TOK_NUMBER\<close> inherits \<open>Token.get_size\<close>, which raises;
  \<open>TOK_BINARY_OPERATION.get_size\<close> reads the undefined name \<open>left\<close>. In
  \<open>TOK_OPCODE.get_size\<close> the \<open>return\<close> of the \<open>PIECE\<close> branch ends in a comma, so
  what it returns is a tuple of one element.
\<close>

fun get_size :: "token \<Rightarrow> error + pyval" where
  "get_size (TOK_VAR name) = Inr PyNone"
| "get_size (TOK_SIZEOF v) = Inr (PyInt 8)"
| "get_size (TOK_NUMBER val_repr sz) = Inl NotImplementedError"
| "get_size (TOK_BINARY_OPERATION k l r) = Inl NameError"
| "get_size (TOK_OPCODE name []) =
     (if name = ''PIECE'' then Inl IndexError
      else if name \<in> set SAME_SIZE_OP_NAMES then Inl IndexError
      else if name \<in> set BOOLEAN_OP_NAMES then Inr (PyInt 1)
      else Inr PyNone)"
| "get_size (TOK_OPCODE name [a0]) =
     (if name = ''PIECE'' then ebind (get_size a0) (\<lambda>s0. Inl IndexError)
      else if name \<in> set SAME_SIZE_OP_NAMES then get_size a0
      else if name \<in> set BOOLEAN_OP_NAMES then Inr (PyInt 1)
      else Inr PyNone)"
| "get_size (TOK_OPCODE name (a0 # a1 # rest)) =
     (if name = ''PIECE'' then
        ebind (get_size a0) (\<lambda>s0. ebind (get_size a1) (\<lambda>s1.
          ebind (py_add s0 s1) (\<lambda>s. Inr (PyTuple [s]))))
      else if name \<in> set SAME_SIZE_OP_NAMES then get_size a0
      else if name \<in> set BOOLEAN_OP_NAMES then Inr (PyInt 1)
      else Inr PyNone)"
| "get_size (TOK_OPCODE_OR elements) = Inr PyNone"

section \<open>Rewrite-side emission\<close>

definition emit_create_var :: "token \<Rightarrow> string \<Rightarrow> nat \<Rightarrow> error + string" where
  "emit_create_var variable parent_op_name input_number =
     ebind (to_c variable) (\<lambda>c.
       Inr (''  data.opSetInput('' @ parent_op_name @ '', '' @ c @ '', '' @ str_nat input_number
              @ '');\<newline>''))"

text \<open>\<open>_emit_create_const\<close>: its second line names \<open>op\<close>, whatever the parent is.\<close>

definition emit_create_const ::
  "emitter \<Rightarrow> token \<Rightarrow> string \<Rightarrow> nat \<Rightarrow> error + string \<times> emitter" where
  "emit_create_const e constant parent_op_name input_number =
     ebind (get_free_name e ''out_const'') (\<lambda>(const_varnode_name, e1).
     ebind (size_to_c constant) (\<lambda>sz.
     ebind (to_c constant) (\<lambda>c.
       Inr (''  Varnode* '' @ const_varnode_name @ '' = data.newConstant('' @ sz @ '', '' @ c
              @ '');\<newline>''
              @ ''  data.opSetInput(op, '' @ const_varnode_name @ '', '' @ str_nat input_number
              @ '');\<newline>'', e1))))"

definition create_opcode_text ::
  "string \<Rightarrow> string \<Rightarrow> nat \<Rightarrow> string \<Rightarrow> pyval \<Rightarrow> string \<Rightarrow> nat \<Rightarrow> string" where
  "create_opcode_text new_op_name new_out_varname num_args name sz parent_op_name input_num =
     ''  PcodeOp* '' @ new_op_name @ '' = data.newOp('' @ str_nat num_args @ '', ''
       @ parent_op_name @ ''->getAddr());\<newline>''
       @ ''  data.opSetOpcode('' @ new_op_name @ '', CPUI_'' @ name @ '');\<newline>''
       @ ''  Varnode* '' @ new_out_varname @ '' = data.newUniqueOut('' @ py_str sz @ '', ''
       @ new_op_name @ '');\<newline>''
       @ ''  data.opInsertBefore('' @ new_op_name @ '', '' @ parent_op_name @ '');\<newline>''
       @ ''  data.opSetInput('' @ parent_op_name @ '', '' @ new_out_varname @ '', ''
       @ str_nat input_num @ '');\<newline>\<newline>''"

text \<open>
  \<open>_emit_create_opcode\<close>; \<open>emit_create_args\<close> is its loop over \<open>opcode._args\<close> from
  index \<open>i\<close> on.
\<close>

function (sequential) emit_create_opcode ::
    "emitter \<Rightarrow> token \<Rightarrow> string \<Rightarrow> nat \<Rightarrow> error + string \<times> emitter"
  and emit_create_args ::
    "emitter \<Rightarrow> string \<Rightarrow> nat \<Rightarrow> token list \<Rightarrow> error + string \<times> emitter"
where
  "emit_create_opcode e (TOK_OPCODE name args) parent_op_name input_num =
     ebind (get_free_name e ''out_op'') (\<lambda>(new_op_name, e1).
     ebind (get_free_name e1 ''out_varnode'') (\<lambda>(new_out_varname, e2).
     ebind (get_size (TOK_OPCODE name args)) (\<lambda>sz.
     ebind (emit_create_args e2 new_op_name 0 args) (\<lambda>(inputs, e3).
       Inr (create_opcode_text new_op_name new_out_varname (length args) name sz
              parent_op_name input_num @ inputs, e3)))))"
| "emit_create_opcode e opcode parent_op_name input_num =
     ebind (get_free_name e ''out_op'') (\<lambda>(new_op_name, e1).
     ebind (get_free_name e1 ''out_varnode'') (\<lambda>(new_out_varname, e2). Inl AttributeError))"
| "emit_create_args e new_op_name i [] = Inr ([], e)"
| "emit_create_args e new_op_name i (TOK_OPCODE name args # rest) =
     ebind (emit_create_opcode e (TOK_OPCODE name args) new_op_name i) (\<lambda>(out, e1).
     ebind (emit_create_args e1 new_op_name (i + 1) rest) (\<lambda>(out', e2). Inr (out @ out', e2)))"
| "emit_create_args e new_op_name i (TOK_VAR var_name # rest) =
     ebind (emit_create_var (TOK_VAR var_name) new_op_name i) (\<lambda>out.
     ebind (emit_create_args e new_op_name (i + 1) rest) (\<lambda>(out', e2). Inr (out @ out', e2)))"
| "emit_create_args e new_op_name i (arg # rest) =
     ebind (emit_create_const e arg new_op_name i) (\<lambda>(out, e1).
     ebind (emit_create_args e1 new_op_name (i + 1) rest) (\<lambda>(out', e2). Inr (out @ out', e2)))"
  by pat_completeness auto
termination
  by (relation "measure (\<lambda>x. case x of
        Inl (e, opcode, parent, n) \<Rightarrow> 2 * size opcode + 1
      | Inr (e, parent, i, args) \<Rightarrow> 2 * size_list size args)") simp_all

section \<open>Constraints (\<^verbatim>\<open>TOK_CONSTRAINT\<close>)\<close>

text \<open>
  \<open>self._left == self._right\<close>: only \<open>TOK_VAR\<close> defines \<open>__eq__\<close> (equal names); the
  other classes compare by identity, and the two sides of a constraint are never the same
  object.
\<close>

fun tok_eq :: "token \<Rightarrow> token \<Rightarrow> bool" where
  "tok_eq (TOK_VAR a) (TOK_VAR b) = (a = b)"
| "tok_eq a b = False"

fun is_TOK_VAR :: "token \<Rightarrow> bool" where
  "is_TOK_VAR (TOK_VAR name) = True"
| "is_TOK_VAR t = False"

text \<open>
  What \<open>to_check_c\<close> hands back: the tuple \<open>(code, indent_level)\<close>, or, on the one
  branch whose \<open>return\<close> has no indent level, the bare \<open>str\<close>.
\<close>

datatype check_ret = RetTuple string nat | RetStr string

definition or_open_text :: "string \<Rightarrow> string \<Rightarrow> nat \<Rightarrow> string" where
  "or_open_text or_func_name option_name indent_level =
     ''\<newline>'' @ spaces indent_level @ ''auto '' @ or_func_name @ '' = [&](int4 '' @ option_name
       @ '') -> int4 {\<newline>''
       @ spaces indent_level @ ''  if ('' @ option_name @ '' == 0) {\<newline>''"

definition or_elif_text :: "string \<Rightarrow> nat \<Rightarrow> nat \<Rightarrow> string" where
  "or_elif_text option_name i indent_level =
     spaces indent_level @ ''  } else if ('' @ option_name @ '' == '' @ str_nat i @ '') {\<newline>''"

definition or_else_text :: "nat \<Rightarrow> string" where
  "or_else_text indent_level = spaces indent_level @ ''  } else {\<newline>''"

definition or_close_text :: "nat \<Rightarrow> string" where
  "or_close_text indent_level = spaces indent_level @ ''  }\<newline>\<newline>''"

text \<open>
  The list comprehension of \<open>to_check_c\<close> over \<open>range(1, len(elements) - 1)\<close>: the
  branches of the alternatives between the first and the last, from index \<open>i\<close> on.
\<close>

fun or_branches ::
  "emitter \<Rightarrow> token \<Rightarrow> string \<Rightarrow> nat \<Rightarrow> nat \<Rightarrow> token list \<Rightarrow> error + string \<times> emitter" where
  "or_branches e left option_name indent_level i [] = Inr ([], e)"
| "or_branches e left option_name indent_level i (el # els) =
     ebind (emit_check_opcode e left el (indent_level + 4)) (\<lambda>(b, e1).
     ebind (or_branches e1 left option_name indent_level (i + 1) els) (\<lambda>(rest, e2).
       Inr (or_elif_text option_name i indent_level @ b @ rest, e2)))"

text \<open>
  \<open>to_check_c\<close>, with the emitter state and the constraint (whose \<open>_or_func_name\<close>
  it may set) handed back. The \<open>print\<close> of the two warnings is left out. The last line
  of the source formats the undefined name \<open>check_val\<close> into its message, which raises
  \<open>NameError\<close> before the \<open>ValueError\<close> is built.
\<close>

definition check_constant_with_str ::
  "(string \<Rightarrow> pyarg \<Rightarrow> nat \<Rightarrow> error + string) \<Rightarrow> token \<Rightarrow> token \<Rightarrow> nat \<Rightarrow> error + string" where
  "check_constant_with_str f left right indent_level =
     ebind (to_c left) (\<lambda>lc. ebind (to_c right) (\<lambda>rc. f lc (CStr rc) indent_level))"

fun to_check_c ::
  "tok_constraint \<Rightarrow> emitter \<Rightarrow> nat \<Rightarrow> error + check_ret \<times> emitter \<times> tok_constraint" where
  "to_check_c (TOK_CONSTRAINT left op (TOK_OPCODE_OR elements) ofn) e indent_level =
     (if op \<noteq> ''='' then Inl AssertionError
      else
        ebind (get_free_name e ''or_func'') (\<lambda>(or_func_name, e1).
        ebind (get_free_name e1 ''option_id'') (\<lambda>(option_name, e2).
          if list_ex is_TOK_VAR elements then Inl AssertionError
          else if elements = [] then Inl IndexError
          else
            ebind (emit_check_opcode e2 left (hd elements) (indent_level + 4)) (\<lambda>(b0, e3).
            ebind (or_branches e3 left option_name indent_level 1 (butlast (tl elements)))
              (\<lambda>(mid, e4).
            ebind (emit_check_opcode e4 left (last elements) (indent_level + 4)) (\<lambda>(bl, e5).
              Inr (RetTuple (or_open_text or_func_name option_name indent_level @ b0 @ mid
                             @ or_else_text indent_level @ bl @ or_close_text indent_level)
                            (indent_level + 2),
                   e5,
                   TOK_CONSTRAINT left op (TOK_OPCODE_OR elements) (Some or_func_name))))))))"
| "to_check_c (TOK_CONSTRAINT left op right ofn) e indent_level =
     (if op = ''='' then
        if tok_eq left right then
          Inr (RetTuple [] indent_level, e, TOK_CONSTRAINT left op right ofn)
        else (case right of
            TOK_OPCODE name args \<Rightarrow>
              ebind (emit_check_opcode e left right indent_level) (\<lambda>(code, e1).
                Inr (RetTuple code indent_level, e1, TOK_CONSTRAINT left op right ofn))
          | TOK_VAR var_name \<Rightarrow> Inl AssertionError
          | _ \<Rightarrow>
              ebind (check_constant_with_str emit_check_constant_equal left right indent_level)
                (\<lambda>code. Inr (RetTuple code indent_level, e, TOK_CONSTRAINT left op right ofn)))
      else if op = ''<'' then
        if tok_eq left right then
          Inr (RetTuple (spaces indent_level @ ''return 0;'') indent_level, e,
               TOK_CONSTRAINT left op right ofn)
        else (case right of
            TOK_VAR var_name \<Rightarrow>
              if var_name \<notin> variables e then Inl AssertionError
              else
                ebind (to_c left) (\<lambda>lc.
                ebind (emit_check_constant_less lc (CStr (var_name @ ''->getOffset()''))
                         indent_level) (\<lambda>code.
                  Inr (RetTuple (emit_check_is_constant var_name indent_level @ code)
                         indent_level, e, TOK_CONSTRAINT left op right ofn)))
          | TOK_BINARY_OPERATION k l r \<Rightarrow>
              ebind (check_constant_with_str emit_check_constant_less left right indent_level)
                (\<lambda>code. Inr (RetTuple code indent_level, e, TOK_CONSTRAINT left op right ofn))
          | TOK_NUMBER val_repr sz \<Rightarrow>
              ebind (check_constant_with_str emit_check_constant_less left right indent_level)
                (\<lambda>code. Inr (RetTuple code indent_level, e, TOK_CONSTRAINT left op right ofn))
          | _ \<Rightarrow> Inl NameError)
      else if op = ''>'' then
        if tok_eq left right then
          Inr (RetTuple (spaces indent_level @ ''return 0;'') indent_level, e,
               TOK_CONSTRAINT left op right ofn)
        else (case right of
            TOK_VAR var_name \<Rightarrow>
              if var_name \<notin> variables e then Inl AssertionError
              else
                ebind (to_c left) (\<lambda>lc.
                ebind (emit_check_constant_greater lc (CStr (var_name @ ''->getOffset()''))
                         indent_level) (\<lambda>code.
                  Inr (RetTuple (emit_check_is_constant var_name indent_level @ code)
                         indent_level, e, TOK_CONSTRAINT left op right ofn)))
          | TOK_BINARY_OPERATION k l r \<Rightarrow>
              ebind (check_constant_with_str emit_check_constant_greater left right indent_level)
                (\<lambda>code. Inr (RetStr code, e, TOK_CONSTRAINT left op right ofn))
          | TOK_NUMBER val_repr sz \<Rightarrow>
              ebind (check_constant_with_str emit_check_constant_greater left right indent_level)
                (\<lambda>code. Inr (RetStr code, e, TOK_CONSTRAINT left op right ofn))
          | _ \<Rightarrow> Inl NameError)
      else Inl NameError)"

definition or_end_text :: "string \<Rightarrow> string \<Rightarrow> nat \<Rightarrow> nat \<Rightarrow> string" where
  "or_end_text it_var or_func_name num_elements indent_level =
     spaces indent_level @ ''}\<newline>''
       @ ''\<newline>''
       @ spaces indent_level @ ''int4 '' @ it_var @ '';\<newline>''
       @ spaces indent_level @ ''for ('' @ it_var @ '' = 0; '' @ it_var @ '' < ''
       @ str_nat num_elements @ ''; '' @ it_var @ ''++) {;\<newline>''
       @ spaces indent_level @ ''  if ('' @ or_func_name @ ''('' @ it_var @ '') != 0)\<newline>''
       @ spaces indent_level @ ''    break;\<newline>''
       @ spaces indent_level @ ''}\<newline>''
       @ ''\<newline>''
       @ spaces indent_level @ ''if ('' @ it_var @ '' == '' @ str_nat num_elements @ '')\<newline>''
       @ spaces indent_level @ ''  return 0;\<newline>''
       @ spaces indent_level @ ''}\<newline>''"

fun to_check_c_end :: "tok_constraint \<Rightarrow> emitter \<Rightarrow> nat \<Rightarrow> error + string \<times> emitter" where
  "to_check_c_end (TOK_CONSTRAINT left op (TOK_OPCODE_OR elements) ofn) e indent_level =
     ebind (get_free_name e ''i'') (\<lambda>(it_var, e1).
       Inr (or_end_text it_var (case ofn of None \<Rightarrow> ''None'' | Some f \<Rightarrow> f) (length elements)
              indent_level, e1))"
| "to_check_c_end c e indent_level = Inl AssertionError"

section \<open>\<open>emit_apply_op\<close>\<close>

text \<open>The loop that declares every variable of the replacement.\<close>

fun declare_vars :: "emitter \<Rightarrow> token list \<Rightarrow> error + string \<times> emitter" where
  "declare_vars e [] = Inr ([], e)"
| "declare_vars e (var # vars) =
     ebind (emit_declare_var e var) (\<lambda>(out, e1).
     ebind (declare_vars e1 vars) (\<lambda>(out', e2). Inr (out @ out', e2)))"

text \<open>
  The loop over the constraints, which collects \<open>finish_constraints\<close>. Unpacking a
  bare \<open>str\<close> into \<open>code, new_indent_level\<close> raises \<open>ValueError\<close> unless it has
  exactly two characters; \<open>to_check_c\<close> never returns one, as
  \<open>to_check_c_never_str\<close> shows.
\<close>

fun check_constraints ::
  "emitter \<Rightarrow> nat \<Rightarrow> tok_constraint list
     \<Rightarrow> error + string \<times> (nat \<times> tok_constraint) list \<times> emitter" where
  "check_constraints e indent_level [] = Inr ([], [], e)"
| "check_constraints e indent_level (constr # rest) =
     ebind (to_check_c constr e indent_level) (\<lambda>(ret, e1, constr').
       case ret of
         RetStr s \<Rightarrow> Inl ValueError
       | RetTuple code new_indent_level \<Rightarrow>
           if new_indent_level \<noteq> indent_level then
             ebind (check_constraints e1 new_indent_level rest) (\<lambda>(out, finish, e2).
               Inr (code @ out, (indent_level, constr') # finish, e2))
           else
             ebind (check_constraints e1 indent_level rest) (\<lambda>(out, finish, e2).
               Inr (code @ out, finish, e2)))"

text \<open>The second loop, over \<open>reversed(finish_constraints)\<close>.\<close>

fun finish_constraints ::
  "emitter \<Rightarrow> (nat \<times> tok_constraint) list \<Rightarrow> error + string \<times> emitter" where
  "finish_constraints e [] = Inr ([], e)"
| "finish_constraints e ((indent_level, constr) # rest) =
     ebind (to_check_c_end constr e indent_level) (\<lambda>(out, e1).
     ebind (finish_constraints e1 rest) (\<lambda>(out', e2). Inr (out @ out', e2)))"

text \<open>
  The loop \<open>for i, replace_arg in enumerate(replace_expr.get_args())\<close>, from index
  \<open>i\<close> on. Its last branch evaluates \<open>- "op"\<close> for the second argument of the call,
  which raises \<open>TypeError\<close> before \<open>_emit_create_const\<close> is entered.
\<close>

fun change_inputs :: "emitter \<Rightarrow> nat \<Rightarrow> token list \<Rightarrow> error + string \<times> emitter" where
  "change_inputs e i [] = Inr ([], e)"
| "change_inputs e i (TOK_OPCODE name args # rest) =
     ebind (emit_create_opcode e (TOK_OPCODE name args) ''op'' i) (\<lambda>(out, e1).
     ebind (change_inputs e1 (i + 1) rest) (\<lambda>(out', e2). Inr (out @ out', e2)))"
| "change_inputs e i (TOK_VAR var_name # rest) =
     ebind (emit_create_var (TOK_VAR var_name) ''op'' i) (\<lambda>out.
     ebind (change_inputs e (i + 1) rest) (\<lambda>(out', e2). Inr (out @ out', e2)))"
| "change_inputs e i (replace_arg # rest) = Inl TypeError"

definition apply_op_header :: "string \<Rightarrow> string" where
  "apply_op_header class_name =
     ''int4 RuleSimplify'' @ class_name @ ''::applyOp(PcodeOp *op, Funcdata &data)\<newline>''
       @ ''\<newline>''
       @ ''{\<newline>''
       @ ''\<newline>''
       @ ''  // Remaining checks on the match expression\<newline>''"

definition change_arity :: "string \<Rightarrow> nat \<Rightarrow> string \<Rightarrow> nat \<Rightarrow> string" where
  "change_arity match_name num_match_args replace_name num_replace_args =
     (if replace_name \<noteq> match_name
      then ''  data.opSetOpcode(op, CPUI_'' @ replace_name @ '');\<newline>'' else [])
       @ concat (map (\<lambda>i. ''  op->insertInput('' @ str_nat i @ '');\<newline>'')
                   [num_match_args..<num_replace_args])
       @ concat (map (\<lambda>i. ''  data.opRemoveInput(op, '' @ str_nat i @ '');\<newline>'')
                   [num_replace_args..<num_match_args])"

fun emit_apply_op ::
  "emitter \<Rightarrow> string \<Rightarrow> token \<Rightarrow> tok_constraint list \<Rightarrow> token \<Rightarrow> error + string \<times> emitter" where
  "emit_apply_op e class_name (TOK_OPCODE match_name match_args) constraints replace_expr =
     ebind (declare_vars e (get_variables replace_expr)) (\<lambda>(decls, e1).
     ebind (emit_check_opcode_children e1 ''op'' (TOK_OPCODE match_name match_args) 2)
       (\<lambda>(checks, e2).
     ebind (check_constraints e2 2 constraints) (\<lambda>(ccode, finish, e3).
     ebind (finish_constraints e3 (rev finish)) (\<lambda>(cend, e4).
       case replace_expr of
         TOK_OPCODE replace_name replace_args \<Rightarrow>
           ebind (change_inputs e4 0 replace_args) (\<lambda>(inputs, e5).
             Inr (apply_op_header class_name @ decls @ checks
                    @ (if constraints \<noteq> []
                       then ''\<newline>  // Some more checks for the extra constraints\<newline>''
                       else [])
                    @ ccode @ cend
                    @ ''\<newline>  // matched this PcodeOp - replace this with the simplified structure\<newline>''
                    @ change_arity match_name (length match_args) replace_name
                        (length replace_args)
                    @ inputs
                    @ ''\<newline>  return 1;\<newline>}\<newline>'', e5))
       | _ \<Rightarrow> Inl AssertionError))))"
| "emit_apply_op e class_name match_expr constraints replace_expr = Inl AssertionError"

section \<open>Notions used in the statements about the matcher\<close>

text \<open>
  The variables that occur as operands in a match expression, in textual order: the
  \<open>TOK_VAR\<close> arguments of the opcode and of the opcodes nested in it. These are the
  occurrences that have a target operand. (A variable inside an arithmetic expression or
  a size annotation is only printed by \<open>to_c\<close>.)
\<close>

fun var_args :: "token \<Rightarrow> string list" where
  "var_args (TOK_VAR name) = [name]"
| "var_args (TOK_OPCODE name args) = concat (map var_args args)"
| "var_args t = []"

text \<open>The shape of every name the fresh-name generator returns: it ends in a digit.\<close>

definition ends_digit :: "string \<Rightarrow> bool" where
  "ends_digit s = (s \<noteq> [] \<and> last s \<in> set ''0123456789'')"

text \<open>
  How a run of the matcher changes the emitter state from \<open>e\<close> to \<open>e'\<close> while it walks
  over the variable occurrences \<open>vs\<close>: \<open>_declared_vars\<close> is untouched, and a name that
  is not of the generated shape is in \<open>_variables\<close> afterwards iff it was there before or
  is one of \<open>vs\<close>.
\<close>

definition bound_step :: "emitter \<Rightarrow> emitter \<Rightarrow> string list \<Rightarrow> bool" where
  "bound_step e e' vs =
     (declared_vars e' = declared_vars e
      \<and> (\<forall>v. \<not> ends_digit v \<longrightarrow> (v \<in> variables e' \<longleftrightarrow> v \<in> variables e \<or> v \<in> set vs)))"

text \<open>
  What it is for the matcher to check the argument \<open>arg\<close> against the operand \<open>t\<close>,
  taking the emitter from \<open>e\<close> to \<open>e'\<close> and emitting \<open>out\<close>, for each kind of
  argument (section 4.3.1 of the specification):
  a \<open>Var\<close> already in \<open>_variables\<close> is compared with \<open>t\<close>, a new one is assigned
  \<open>t\<close> and recorded;
  a \<open>BinOp\<close> is compared with \<open>t\<close> by \<open>constantMatch\<close>;
  a \<open>Number\<close> sized by a token is masked to that size and compared with \<open>t\<close> by
  \<open>constantMatch\<close>;
  for a nested \<open>Opcode\<close>, \<open>t\<close> (outside a commutative helper: a fresh local assigned
  \<open>t\<close>) must be written, its defining op must have the opcode, and the arguments of
  that op are checked in turn.
\<close>

definition checked_against ::
  "emitter \<Rightarrow> string \<Rightarrow> bool \<Rightarrow> token \<Rightarrow> nat \<Rightarrow> string \<Rightarrow> emitter \<Rightarrow> bool" where
  "checked_against e t is_commutative arg indentation out e' =
     (case arg of
        TOK_VAR v \<Rightarrow>
          (if v \<in> variables e
           then out = spaces indentation @ ''if ('' @ t @ '' != '' @ v @ '') return 0;\<newline>''
                \<and> e' = e
           else out = spaces indentation
                        @ (if v \<notin> declared_vars e then ''Varnode* '' else [])
                        @ v @ '' = '' @ t @ '';\<newline>''
                \<and> e' = e\<lparr>variables := insert v (variables e)\<rparr>)
      | TOK_BINARY_OPERATION k l r \<Rightarrow>
          (\<exists>c. to_c arg = Inr c
             \<and> out = spaces indentation @ ''if (! '' @ t @ ''->constantMatch('' @ c
                      @ '')) return 0;\<newline>''
             \<and> e' = e)
      | TOK_NUMBER val_repr sz \<Rightarrow>
          (\<exists>size_tok sc. sz = SizeTok size_tok \<and> to_c size_tok = Inr sc
             \<and> out = spaces indentation @ ''uintb masked_const = '' @ val_repr
                      @ '' & ((((uintb) 1) << (8 * '' @ sc @ '')) - 1);\<newline>''
                      @ spaces indentation @ ''if (! '' @ t
                      @ ''->constantMatch(masked_const)) return 0;\<newline>''
             \<and> e' = e)
      | TOK_OPCODE name args \<Rightarrow>
          (\<exists>vn e0 pv e1 children.
               (if is_commutative then vn = t \<and> e0 = e
                else get_free_name e ''autovar'' = Inr (vn, e0))
             \<and> get_free_name e0 ''temp_pcode'' = Inr (pv, e1)
             \<and> emit_check_opcode_children e1 pv arg indentation = Inr (children, e')
             \<and> out = (if is_commutative then []
                       else spaces indentation
                              @ (if vn \<notin> declared_vars e then ''Varnode* '' else [])
                              @ vn @ '' = '' @ t @ '';\<newline>'')
                      @ spaces indentation @ ''if (! '' @ vn @ ''->isWritten()) return 0;\<newline>''
                      @ spaces indentation @ ''PcodeOp* '' @ pv @ '' = '' @ vn
                      @ ''->getDef();\<newline>''
                      @ spaces indentation @ ''if ('' @ pv @ ''->code() != CPUI_'' @ name
                      @ '') return 0;\<newline>''
                      @ children)
      | _ \<Rightarrow> False)"

section \<open>The fresh-name generator\<close>


lemma digit_char_in: "d < 10 \<Longrightarrow> digit_char d \<in> set ''0123456789''"
  unfolding digit_char_def by (rule nth_mem) simp

lemma str_nat_digits: "set (str_nat n) \<subseteq> set ''0123456789''"
proof (induction n rule: str_nat.induct)
  case (1 n)
  show ?case
  proof (cases "n < 10")
    case True
    then show ?thesis using digit_char_in [of n] by (subst str_nat.simps) simp
  next
    case False
    have "n mod 10 < 10" by simp
    then have "digit_char (n mod 10) \<in> set ''0123456789''" by (rule digit_char_in)
    with False 1 show ?thesis by (subst str_nat.simps) simp
  qed
qed

lemma str_nat_nonempty: "str_nat n \<noteq> []"
  by (subst str_nat.simps) simp

lemma get_free_name_from_Some:
  "get_free_name_from vs p i = Some name \<Longrightarrow>
     \<exists>n. i \<le> n \<and> n < 1000 \<and> name = p @ ''_'' @ str_nat n \<and> name \<notin> vs
         \<and> (\<forall>m. i \<le> m \<and> m < n \<longrightarrow> p @ ''_'' @ str_nat m \<in> vs)"
proof (induction vs p i rule: get_free_name_from.induct)
  case (1 vs p i)
  show ?case
  proof (cases "p @ ''_'' @ str_nat i \<notin> vs")
    case True
    with "1.prems" have "i < 1000" "name = p @ ''_'' @ str_nat i"
      by (auto simp: get_free_name_from.simps [of vs p i] split: if_splits)
    with True show ?thesis by (intro exI [of _ i]) auto
  next
    case False
    with "1.prems" have lt: "\<not> 1000 \<le> i" and rec: "get_free_name_from vs p (i + 1) = Some name"
      by (auto simp: get_free_name_from.simps [of vs p i] split: if_splits)
    from "1.IH" [OF lt _ rec] False obtain n where n: "i + 1 \<le> n" "n < 1000"
      "name = p @ ''_'' @ str_nat n" "name \<notin> vs"
      "\<forall>m. i + 1 \<le> m \<and> m < n \<longrightarrow> p @ ''_'' @ str_nat m \<in> vs" by auto
    have "\<forall>m. i \<le> m \<and> m < n \<longrightarrow> p @ ''_'' @ str_nat m \<in> vs"
    proof (intro allI impI)
      fix m assume m: "i \<le> m \<and> m < n"
      show "p @ ''_'' @ str_nat m \<in> vs"
      proof (cases "m = i")
        case True then show ?thesis using False by simp
      next
        case False then show ?thesis using m n(5) by auto
      qed
    qed
    with n show ?thesis by (intro exI [of _ n]) auto
  qed
qed

lemma get_free_name_from_None:
  "get_free_name_from vs p i = None \<longleftrightarrow> (\<forall>n. i \<le> n \<and> n < 1000 \<longrightarrow> p @ ''_'' @ str_nat n \<in> vs)"
proof (induction vs p i rule: get_free_name_from.induct)
  case (1 vs p i)
  show ?case
  proof (cases "1000 \<le> i")
    case True
    then show ?thesis by (auto simp: get_free_name_from.simps [of vs p i])
  next
    case ge: False
    show ?thesis
    proof (cases "p @ ''_'' @ str_nat i \<notin> vs")
      case True
      with ge show ?thesis
        by (auto simp: get_free_name_from.simps [of vs p i] intro: exI [of _ i])
    next
      case False
      have "(\<forall>n. i \<le> n \<and> n < 1000 \<longrightarrow> p @ ''_'' @ str_nat n \<in> vs)
          \<longleftrightarrow> (\<forall>n. i + 1 \<le> n \<and> n < 1000 \<longrightarrow> p @ ''_'' @ str_nat n \<in> vs)"
      proof
        assume a: "\<forall>n. i + 1 \<le> n \<and> n < 1000 \<longrightarrow> p @ ''_'' @ str_nat n \<in> vs"
        show "\<forall>n. i \<le> n \<and> n < 1000 \<longrightarrow> p @ ''_'' @ str_nat n \<in> vs"
        proof (intro allI impI)
          fix n assume n: "i \<le> n \<and> n < 1000"
          show "p @ ''_'' @ str_nat n \<in> vs"
            using a n False by (cases "n = i") auto
        qed
      qed auto
      with ge False "1.IH" show ?thesis
        by (simp add: get_free_name_from.simps [of vs p i])
    qed
  qed
qed

text \<open>
  Claim C7. For every prefix, \<open>_get_free_name\<close> returns \<open>prefix_n\<close> for the smallest
  \<open>n\<close> whose name is not yet in \<open>_variables\<close>, and adds that name to \<open>_variables\<close>
  without removing any, so an allocation is never undone; the budget is the 1000 indices
  \<open>0..999\<close>, and when every one of them is taken the generator raises \<open>ValueError\<close>
  instead of returning a name.
\<close>

theorem get_free_name_smallest:
  "(if \<forall>n<1000. prefix @ ''_'' @ str_nat n \<in> variables e
    then get_free_name e prefix = Inl ValueError
    else \<exists>n<1000. get_free_name e prefix =
             Inr (prefix @ ''_'' @ str_nat n,
                  e\<lparr>variables := insert (prefix @ ''_'' @ str_nat n) (variables e)\<rparr>)
           \<and> prefix @ ''_'' @ str_nat n \<notin> variables e
           \<and> (\<forall>m<n. prefix @ ''_'' @ str_nat m \<in> variables e))"
proof (cases "get_free_name_from (variables e) prefix 0")
  case None
  then have "\<forall>n<1000. prefix @ ''_'' @ str_nat n \<in> variables e"
    by (simp add: get_free_name_from_None)
  with None show ?thesis by (simp add: get_free_name_def)
next
  case (Some name)
  from get_free_name_from_Some [OF Some] obtain n where n: "n < 1000"
    "name = prefix @ ''_'' @ str_nat n" "name \<notin> variables e"
    "\<forall>m<n. prefix @ ''_'' @ str_nat m \<in> variables e" by auto
  then have "\<not> (\<forall>n<1000. prefix @ ''_'' @ str_nat n \<in> variables e)" by auto
  moreover have "get_free_name e prefix = Inr (name, e\<lparr>variables := insert name (variables e)\<rparr>)"
    using Some by (simp add: get_free_name_def)
  ultimately show ?thesis using n by auto
qed


theorem get_free_name_smallest_witness:
  "\<not> (\<forall>n<1000. ''autovar'' @ ''_'' @ str_nat n
          \<in> variables \<lparr>variables = {''autovar_0''}, declared_vars = {}\<rparr>)
   \<and> (\<exists>n<1000. get_free_name \<lparr>variables = {''autovar_0''}, declared_vars = {}\<rparr> ''autovar'' =
             Inr (''autovar'' @ ''_'' @ str_nat n,
                  \<lparr>variables = {''autovar_0''}, declared_vars = {}\<rparr>
                    \<lparr>variables := insert (''autovar'' @ ''_'' @ str_nat n)
                       (variables \<lparr>variables = {''autovar_0''}, declared_vars = {}\<rparr>)\<rparr>)
           \<and> ''autovar'' @ ''_'' @ str_nat n
               \<notin> variables \<lparr>variables = {''autovar_0''}, declared_vars = {}\<rparr>
           \<and> (\<forall>m<n. ''autovar'' @ ''_'' @ str_nat m
                  \<in> variables \<lparr>variables = {''autovar_0''}, declared_vars = {}\<rparr>))"
proof -
  have "str_nat 1 = ''1''"
    by (simp add: str_nat.simps digit_char_def)
  then have h: "\<not> (\<forall>n<1000. ''autovar'' @ ''_'' @ str_nat n
          \<in> variables \<lparr>variables = {''autovar_0''}, declared_vars = {}\<rparr>)"
    by (auto intro!: exI [of _ 1])
  show ?thesis
    using h get_free_name_smallest
      [of "''autovar''" "\<lparr>variables = {''autovar_0''}, declared_vars = {}\<rparr>"]
    by (simp only: if_not_P simp_thms)
qed

lemma variable_chars_no_digit: "c \<in> set ''0123456789'' \<Longrightarrow> c \<notin> variable_chars"
  by (auto simp: variable_chars_def)

lemma autovar_prefix_chars: "set ''autovar_'' \<subseteq> variable_chars"
  by (simp add: variable_chars_def)

text \<open>
  Claim C10. A name the fresh-name generator returns is the prefix, an underscore and a
  non-empty decimal numeral, while \<open>parse_variable\<close> produces \<open>autovar_\<close> followed by
  the characters the grammar's \<open>variable\<close> accepts (lowercase letters and underscores,
  no digit): the two are never equal, so a generated local never collides with a variable
  of the rule.
\<close>

theorem fresh_name_never_parser_variable:
  assumes "get_free_name e prefix = Inr (name, e')"
    and "set w \<subseteq> variable_chars"
  shows "(\<exists>n. name = prefix @ ''_'' @ str_nat n \<and> str_nat n \<noteq> []
              \<and> set (str_nat n) \<subseteq> set ''0123456789'')
         \<and> parse_variable w \<noteq> TOK_VAR name"
proof -
  from assms(1) obtain n where n: "name = prefix @ ''_'' @ str_nat n"
    using get_free_name_from_Some [of "variables e" prefix 0 name]
    by (auto simp: get_free_name_def split: option.splits)
  have ne: "str_nat n \<noteq> []" by (rule str_nat_nonempty)
  have dg: "set (str_nat n) \<subseteq> set ''0123456789''" by (rule str_nat_digits)
  from ne have "last (str_nat n) \<in> set (str_nat n)" by simp
  with dg have d: "last (str_nat n) \<in> set ''0123456789''" by blast
  from ne n have "last name = last (str_nat n)" by simp
  with d have ld: "last name \<notin> variable_chars" by (simp add: variable_chars_no_digit)
  have "name \<noteq> ''autovar_'' @ w"
  proof
    assume eq: "name = ''autovar_'' @ w"
    then have "name \<noteq> []" by simp
    then have "last name \<in> set name" by simp
    also have "set name \<subseteq> variable_chars"
      using eq assms(2) autovar_prefix_chars by auto
    finally show False using ld by simp
  qed
  with n ne dg show ?thesis by (auto simp: parse_variable_def)
qed

theorem fresh_name_never_parser_variable_witness:
  "get_free_name Emitter_init ''autovar'' = Inr (''autovar_0'', \<lparr>variables = {''autovar_0''}, declared_vars = {}\<rparr>)
   \<and> set ''x'' \<subseteq> variable_chars
   \<and> parse_variable ''x'' \<noteq> TOK_VAR ''autovar_0''"
proof -
  have a: "get_free_name Emitter_init ''autovar'' =
             Inr (''autovar_0'', \<lparr>variables = {''autovar_0''}, declared_vars = {}\<rparr>)"
    by (simp add: get_free_name_def get_free_name_from.simps Emitter_init_def str_nat.simps
          digit_char_def)
  have b: "set ''x'' \<subseteq> variable_chars"
    by (simp add: variable_chars_def)
  from fresh_name_never_parser_variable [OF a b] a b show ?thesis by simp
qed

section \<open>Where the code departs from the specification\<close>

lemma spaces_0: "spaces 0 = []"
  by (simp add: spaces_def)

lemma spaces_Suc: "spaces (Suc n) = CHR '' '' # spaces n"
  by (simp add: spaces_def)

lemma spaces_numeral: "spaces (numeral k) = CHR '' '' # spaces (pred_numeral k)"
  by (simp add: spaces_def numeral_eq_Suc)

lemmas eval_simps =
  get_free_name_def get_free_name_from.simps str_nat.simps digit_char_def str_int_def
  Emitter_init_def spaces_0 spaces_Suc spaces_numeral lower_def lower_char_def rsplit_last_def startswith_def
  COMMUTATIVE_OP_NAMES_def SAME_SIZE_OP_NAMES_def BOOLEAN_OP_NAMES_def
  emit_declare_var_def emit_create_varnode_def emit_check_def emit_check_equality_def
  emit_check_is_constant_def emit_check_constant_greater_def emit_check_constant_less_def
  check_opcode_text_def checks_comment_def lambda_open_def lambda_guard_def lambda_close_def
  emit_create_var_def emit_create_const_def create_opcode_text_def
  or_open_text_def or_elif_text_def or_else_text_def or_close_text_def or_end_text_def
  check_constant_with_str_def apply_op_header_def change_arity_def

text \<open>
  Claim C1 (constant masking). The claim asks for a masked comparison when the declared
  size of a \<open>Number\<close> is below 8 and for an unmasked one when it is 8. In the code the
  test \<open>const_val._size == 8\<close> compares the \<open>str\<close> the parser stored with an int, so
  it is false for every \<open>Number\<close> with a literal size, and the masked branch then calls
  \<open>.to_c()\<close> on that \<open>str\<close>: a \<open>Number\<close> argument with a literal size always makes
  the matcher raise \<open>AttributeError\<close>. The two rules below are
  \<open>Foo: INT_AND(x, 0xff:1) => COPY(x)\<close> and \<open>Foo: INT_SUB(x, 0) => COPY(x)\<close>.
\<close>

theorem literal_size_number_raises:
  "emit_check_arg e t is_commutative (TOK_NUMBER val_repr (SizeStr s n)) indentation
     = Inl AttributeError
   \<and> emit_apply_op Emitter_init ''Foo''
       (TOK_OPCODE ''INT_AND'' [TOK_VAR ''autovar_x'', TOK_NUMBER ''0xff'' (SizeStr ''1'' 1)]) []
       (TOK_OPCODE ''COPY'' [TOK_VAR ''autovar_x'']) = Inl AttributeError
   \<and> emit_apply_op Emitter_init ''Foo''
       (TOK_OPCODE ''INT_SUB'' [TOK_VAR ''autovar_x'', TOK_NUMBER ''0'' (SizeStr ''8'' 8)]) []
       (TOK_OPCODE ''COPY'' [TOK_VAR ''autovar_x'']) = Inl AttributeError"
  by (simp add: eval_simps)

text \<open>
  Claim C5 (constants of the replacement). For a \<open>Number\<close> at the top level of the
  replacement, \<open>emit_apply_op\<close> evaluates \<open>- "op"\<close> and raises \<open>TypeError\<close>: the rule is
  \<open>Foo: INT_SUB(x, y) => INT_ADD(x, 1:4)\<close>. For a \<open>Number\<close> inside a nested opcode,
  \<open>_emit_create_const\<close> ignores its \<open>parent_op_name\<close> and wires the constant to \<open>op\<close>:
  in \<open>Foo: INT_SUB(x, y) => INT_ADD(x, INT_SUB(y, 1:4))\<close> the constant is input 1 of the
  new \<open>out_op_0\<close>, and the emitted line is \<open>data.opSetInput(op, out_const_0, 1)\<close>.
\<close>

theorem replacement_constant_miswired:
  "emit_apply_op Emitter_init ''Foo''
     (TOK_OPCODE ''INT_SUB'' [TOK_VAR ''autovar_x'', TOK_VAR ''autovar_y'']) []
     (TOK_OPCODE ''INT_ADD'' [TOK_VAR ''autovar_x'', TOK_NUMBER ''1'' (SizeStr ''4'' 4)])
     = Inl TypeError
   \<and> (\<exists>e'. emit_apply_op Emitter_init ''Foo''
       (TOK_OPCODE ''INT_SUB'' [TOK_VAR ''autovar_x'', TOK_VAR ''autovar_y'']) []
       (TOK_OPCODE ''INT_ADD'' [TOK_VAR ''autovar_x'',
          TOK_OPCODE ''INT_SUB'' [TOK_VAR ''autovar_y'', TOK_NUMBER ''1'' (SizeStr ''4'' 4)]])
     = Inr (''int4 RuleSimplifyFoo::applyOp(PcodeOp *op, Funcdata &data)\<newline>''
         @ ''\<newline>''
         @ ''{\<newline>''
         @ ''\<newline>''
         @ ''  // Remaining checks on the match expression\<newline>''
         @ ''  Varnode* autovar_x;\<newline>''
         @ ''  Varnode* autovar_y;\<newline>''
         @ ''\<newline>''
         @ ''  // Checks INT_SUB(x, y)\<newline>''
         @ ''  autovar_x = op->getIn(0);\<newline>''
         @ ''\<newline>''
         @ ''  autovar_y = op->getIn(1);\<newline>''
         @ ''\<newline>''
         @ ''\<newline>''
         @ ''  // matched this PcodeOp - replace this with the simplified structure\<newline>''
         @ ''  data.opSetOpcode(op, CPUI_INT_ADD);\<newline>''
         @ ''  data.opSetInput(op, autovar_x, 0);\<newline>''
         @ ''  PcodeOp* out_op_0 = data.newOp(2, op->getAddr());\<newline>''
         @ ''  data.opSetOpcode(out_op_0, CPUI_INT_SUB);\<newline>''
         @ ''  Varnode* out_varnode_0 = data.newUniqueOut(None, out_op_0);\<newline>''
         @ ''  data.opInsertBefore(out_op_0, op);\<newline>''
         @ ''  data.opSetInput(op, out_varnode_0, 1);\<newline>''
         @ ''\<newline>''
         @ ''  data.opSetInput(out_op_0, autovar_y, 0);\<newline>''
         @ ''  Varnode* out_const_0 = data.newConstant(4, 1);\<newline>''
         @ ''  data.opSetInput(op, out_const_0, 1);\<newline>''
         @ ''\<newline>''
         @ ''  return 1;\<newline>''
         @ ''}\<newline>'', e'))"
  by (simp add: eval_simps)

text \<open>
  Claim C6 (freshness). The masked comparison declares its local under the fixed name
  \<open>masked_const\<close>, not through \<open>_get_free_name\<close>. The rule
  \<open>Foo: INT_SUB(INT_SUB(x, 0:|x|), 1:|x|) => COPY(x)\<close> is accepted, and the emitted
  function declares \<open>uintb masked_const\<close> twice in the same scope.
\<close>

theorem masked_const_declared_twice:
  "\<exists>e'. emit_apply_op Emitter_init ''Foo''
     (TOK_OPCODE ''INT_SUB''
        [TOK_OPCODE ''INT_SUB''
           [TOK_VAR ''autovar_x'',
            TOK_NUMBER ''0'' (SizeTok (TOK_SIZEOF (TOK_VAR ''autovar_x'')))],
         TOK_NUMBER ''1'' (SizeTok (TOK_SIZEOF (TOK_VAR ''autovar_x'')))]) []
     (TOK_OPCODE ''COPY'' [TOK_VAR ''autovar_x''])
     = Inr (''int4 RuleSimplifyFoo::applyOp(PcodeOp *op, Funcdata &data)\<newline>''
         @ ''\<newline>''
         @ ''{\<newline>''
         @ ''\<newline>''
         @ ''  // Remaining checks on the match expression\<newline>''
         @ ''  Varnode* autovar_x;\<newline>''
         @ ''\<newline>''
         @ ''  // Checks INT_SUB(INT_SUB(x, 0:|x|), 1:|x|)\<newline>''
         @ ''  Varnode* autovar_0 = op->getIn(0);\<newline>''
         @ ''  if (! autovar_0->isWritten()) return 0;\<newline>''
         @ ''  PcodeOp* temp_pcode_0 = autovar_0->getDef();\<newline>''
         @ ''  if (temp_pcode_0->code() != CPUI_INT_SUB) return 0;\<newline>''
         @ ''\<newline>''
         @ ''  // Checks INT_SUB(x, 0:|x|)\<newline>''
         @ ''  autovar_x = temp_pcode_0->getIn(0);\<newline>''
         @ ''\<newline>''
         @ ''  uintb masked_const = 0 & ((((uintb) 1) << (8 * autovar_x->getSize())) - 1);\<newline>''
         @ ''  if (! temp_pcode_0->getIn(1)->constantMatch(masked_const)) return 0;\<newline>''
         @ ''\<newline>''
         @ ''\<newline>''
         @ ''  uintb masked_const = 1 & ((((uintb) 1) << (8 * autovar_x->getSize())) - 1);\<newline>''
         @ ''  if (! op->getIn(1)->constantMatch(masked_const)) return 0;\<newline>''
         @ ''\<newline>''
         @ ''\<newline>''
         @ ''  // matched this PcodeOp - replace this with the simplified structure\<newline>''
         @ ''  data.opSetOpcode(op, CPUI_COPY);\<newline>''
         @ ''  data.opRemoveInput(op, 1);\<newline>''
         @ ''  data.opSetInput(op, autovar_x, 0);\<newline>''
         @ ''\<newline>''
         @ ''  return 1;\<newline>''
         @ ''}\<newline>'', e')"
  by (simp add: eval_simps)

lemma check_constant_with_str_greater_raises:
  "check_constant_with_str emit_check_constant_greater left right n \<noteq> Inr x"
  by (auto simp: check_constant_with_str_def emit_check_constant_greater_def ebind_eq_Inr)

lemma to_check_c_never_str: "to_check_c constr e n \<noteq> Inr (RetStr s, e', constr')"
proof (cases constr)
  case (TOK_CONSTRAINT left op right ofn)
  show ?thesis
    by (cases right)
      (auto simp: TOK_CONSTRAINT ebind_eq_Inr check_constant_with_str_greater_raises
        split: if_splits)
qed

text \<open>
  Claim C8 (\<open>to_check_c\<close> returns a pair). For a \<open>>\<close> constraint whose right-hand side
  is a \<open>Number\<close> or a \<open>BinOp\<close>, \<open>to_check_c\<close> returns no pair: it hands
  \<open>self._right.to_c()\<close>, a \<open>str\<close>, to \<open>_emit_check_constant\<close>, which reads
  \<open>const_val._size\<close> and raises; and the \<open>return\<close> of that branch has no indent level.
  The constraint below is \<open>s > 8\<close>.
\<close>

theorem to_check_c_greater_constant_raises:
  "(\<exists>err. to_check_c (TOK_CONSTRAINT left ''>'' (TOK_NUMBER val_repr sz) ofn) e n = Inl err)
   \<and> (\<exists>err. to_check_c (TOK_CONSTRAINT left ''>'' (TOK_BINARY_OPERATION k l r) ofn) e n
              = Inl err)
   \<and> to_check_c (TOK_CONSTRAINT (TOK_VAR ''autovar_s'') ''>''
         (TOK_NUMBER ''8'' (SizeStr ''8'' 8)) None) e 2 = Inl AttributeError"
proof -
  have a: "\<exists>err. check_constant_with_str emit_check_constant_greater left right n = Inl err"
    for right
    using check_constant_with_str_greater_raises [of left right n]
    by (cases "check_constant_with_str emit_check_constant_greater left right n") auto
  have "\<exists>err. to_check_c (TOK_CONSTRAINT left ''>'' (TOK_NUMBER val_repr sz) ofn) e n = Inl err"
    using a [of "TOK_NUMBER val_repr sz"] by auto
  moreover have "\<exists>err. to_check_c (TOK_CONSTRAINT left ''>'' (TOK_BINARY_OPERATION k l r) ofn) e n
      = Inl err"
    using a [of "TOK_BINARY_OPERATION k l r"] by auto
  moreover have "to_check_c (TOK_CONSTRAINT (TOK_VAR ''autovar_s'') ''>''
         (TOK_NUMBER ''8'' (SizeStr ''8'' 8)) None) e 2 = Inl AttributeError"
    by (simp add: check_constant_with_str_def emit_check_constant_greater_def)
  ultimately show ?thesis by blast
qed

text \<open>
  Claim C9 (size inference). For \<open>PIECE\<close> the claim asks for the integer sum of the two
  input sizes. The \<open>return\<close> of that branch ends in a comma, so \<open>get_size\<close> returns a
  tuple: for \<open>PIECE(INT_EQUAL(a, b), INT_EQUAL(a, b))\<close> it is \<open>(2,)\<close>, not \<open>2\<close>, and for
  no arguments at all is the result of \<open>PIECE\<close> an int.
\<close>

theorem get_size_piece_is_tuple:
  "get_size (TOK_OPCODE ''PIECE''
      [TOK_OPCODE ''INT_EQUAL'' [TOK_VAR ''autovar_a'', TOK_VAR ''autovar_b''],
       TOK_OPCODE ''INT_EQUAL'' [TOK_VAR ''autovar_a'', TOK_VAR ''autovar_b'']])
     = Inr (PyTuple [PyInt 2])
   \<and> py_str (PyTuple [PyInt 2]) = ''(2,)''
   \<and> get_size (TOK_OPCODE ''PIECE'' args) \<noteq> Inr (PyInt k)"
proof -
  have "get_size (TOK_OPCODE ''PIECE'' args) \<noteq> Inr (PyInt k)"
    by (cases "(TOK_OPCODE ''PIECE'' args)" rule: get_size.cases)
      (auto simp: ebind_eq_Inr)
  then show ?thesis
    by (simp add: BOOLEAN_OP_NAMES_def SAME_SIZE_OP_NAMES_def str_int_def str_nat.simps
      digit_char_def)
qed

section \<open>Variables of the match expression\<close>

lemma bound_step_refl: "bound_step e e []"
  by (simp add: bound_step_def)

lemma bound_step_trans:
  "bound_step e e1 vs \<Longrightarrow> bound_step e1 e2 ws \<Longrightarrow> bound_step e e2 (vs @ ws)"
  by (auto simp: bound_step_def)

lemma get_free_name_result:
  assumes "get_free_name e p = Inr (name, e')"
  shows "e' = e\<lparr>variables := insert name (variables e)\<rparr> \<and> ends_digit name"
proof -
  from assms obtain n where n: "name = p @ ''_'' @ str_nat n"
    and e': "e' = e\<lparr>variables := insert name (variables e)\<rparr>"
    using get_free_name_from_Some [of "variables e" p 0 name]
    by (auto simp: get_free_name_def split: option.splits)
  have ne: "str_nat n \<noteq> []" by (rule str_nat_nonempty)
  then have "last (str_nat n) \<in> set (str_nat n)" by simp
  with str_nat_digits [of n] have "last (str_nat n) \<in> set ''0123456789''" by blast
  with ne n have "ends_digit name" by (simp add: ends_digit_def)
  with e' show ?thesis by simp
qed

lemma get_free_name_bound_step: "get_free_name e p = Inr (name, e') \<Longrightarrow> bound_step e e' []"
  by (drule get_free_name_result) (auto simp: bound_step_def)

lemma bound_step_nil_trans1:
  "bound_step e e1 [] \<Longrightarrow> bound_step e1 e2 ws \<Longrightarrow> bound_step e e2 ws"
  using bound_step_trans [of e e1 "[]" e2 ws] by simp

lemma bound_step_nil_trans2:
  "bound_step e e1 ws \<Longrightarrow> bound_step e1 e2 [] \<Longrightarrow> bound_step e e2 ws"
  using bound_step_trans [of e e1 ws e2 "[]"] by simp

lemma emit_check_bound_step:
  shows "emit_check_opcode e varnode opcode n = Inr (out, e') \<Longrightarrow> bound_step e e' (var_args opcode)"
    and "emit_check_opcode_children e target opcode n = Inr (out, e') \<Longrightarrow> bound_step e e' (var_args opcode)"
    and "emit_check_args e target comm i args n = Inr (out, e') \<Longrightarrow> bound_step e e' (concat (map var_args args))"
    and "emit_check_arg e t c arg n = Inr (out, e') \<Longrightarrow> bound_step e e' (var_args arg)"
proof (induction e varnode opcode n and e target opcode n and e target comm i args n
    and e t c arg n arbitrary: out e' and out e' and out e' and out e'
    rule: emit_check_opcode_emit_check_opcode_children_emit_check_args_emit_check_arg.induct)
  case (1 e varnode name args num_indent)
  from "1.prems" obtain vc pv e1 ch where
    a: "get_free_name e ''temp_pcode'' = Inr (pv, e1)"
    and t: "to_c varnode = Inr vc"
    and b: "emit_check_opcode_children e1 pv (TOK_OPCODE name args) num_indent = Inr (ch, e')"
    by (auto simp: ebind_eq_Inr)
  from "1.IH" [OF t a refl b] get_free_name_bound_step [OF a]
  show ?case by (rule_tac bound_step_nil_trans1)
next
  case (3 e target name args indentation)
  show ?case
  proof (cases "name \<in> set COMMUTATIVE_OP_NAMES")
    case True
    with "3.prems" obtain chk e1 l e2 r e3 body e4 a e5 b where
      s1: "get_free_name e (''check_'' @ rsplit_last (lower name)) = Inr (chk, e1)"
      and s2: "get_free_name e1 ''autovar_left'' = Inr (l, e2)"
      and s3: "get_free_name e2 ''autovar_right'' = Inr (r, e3)"
      and s4: "emit_check_args e3 target (Some (l, r)) 0 args (indentation + 2) = Inr (body, e4)"
      and s5: "get_free_name e4 ''autovar'' = Inr (a, e5)"
      and s6: "get_free_name e5 ''autovar'' = Inr (b, e')"
      by (auto simp: ebind_eq_Inr)
    have "bound_step e3 e4 (concat (map var_args args))"
      using "3.IH"(1) [OF True s1 refl s2 refl s3 refl s4] .
    with get_free_name_bound_step [OF s1] get_free_name_bound_step [OF s2]
      get_free_name_bound_step [OF s3] get_free_name_bound_step [OF s5]
      get_free_name_bound_step [OF s6]
    show ?thesis
      unfolding bound_step_def by simp
  next
    case False
    with "3.prems" obtain body where
      s: "emit_check_args e target None 0 args indentation = Inr (body, e')"
      by (auto simp: ebind_eq_Inr)
    from "3.IH"(2) [OF False s] show ?thesis by simp
  qed
next
  case (6 e target comm i arg rest indentation)
  from "6.prems" obtain t o1 e1 o2 where
    t: "target_arg target comm i = Inr t"
    and a: "emit_check_arg e t (comm \<noteq> None) arg indentation = Inr (o1, e1)"
    and b: "emit_check_args e1 target comm (i + 1) rest indentation = Inr (o2, e')"
    by (auto simp: ebind_eq_Inr)
  from "6.IH"(1) [OF t a] "6.IH"(2) [OF t a refl b]
  show ?case by (auto intro: bound_step_trans)
next
  case (7 e t is_commutative var_name indentation)
  then show ?case by (auto simp: bound_step_def split: if_splits)
next
  case (9 e t is_commutative name args indentation)
  show ?case
  proof (cases is_commutative)
    case True
    with "9.prems" "9.IH"(1) show ?thesis by simp
  next
    case False
    with "9.prems" obtain vn e1 o1 where
      a: "get_free_name e ''autovar'' = Inr (vn, e1)"
      and b: "emit_check_opcode e1 (TOK_VAR vn) (TOK_OPCODE name args) indentation = Inr (o1, e')"
      by (auto simp: ebind_eq_Inr)
    from "9.IH"(2) [OF False a refl b] get_free_name_bound_step [OF a]
    show ?thesis by (rule_tac bound_step_nil_trans1)
  qed
qed (auto simp: ebind_eq_Inr bound_step_refl)


lemma emit_check_args_append:
  "emit_check_args e target comm i (xs @ ys) n = Inr (out, e') \<longleftrightarrow>
     (\<exists>o1 e1 o2. emit_check_args e target comm i xs n = Inr (o1, e1)
        \<and> emit_check_args e1 target comm (i + length xs) ys n = Inr (o2, e')
        \<and> out = o1 @ o2)"
proof (induction xs arbitrary: e i out)
  case Nil
  show ?case by simp
next
  case (Cons x xs)
  show ?case
    by (simp add: ebind_eq_Inr Cons.IH split_paired_Ex) (auto simp: ac_simps)
qed

lemma parser_variable_not_generated:
  assumes "parse_variable w = TOK_VAR v" and "set w \<subseteq> variable_chars"
  shows "\<not> ends_digit v"
proof
  assume d: "ends_digit v"
  from assms(1) have v: "v = ''autovar_'' @ w" by (simp add: parse_variable_def)
  then have "v \<noteq> []" by simp
  then have "last v \<in> set v" by simp
  also have "set v \<subseteq> variable_chars" using v assms(2) autovar_prefix_chars by auto
  finally have "last v \<in> variable_chars" .
  with d variable_chars_no_digit [of "last v"] show False
    unfolding ends_digit_def by blast
qed

text \<open>
  Claim C3. Take any argument list the matcher walks (that of the root opcode or of a
  nested one), entered in emitter state \<open>e\<close>, and in it a \<open>Var\<close> argument \<open>v\<close> that the
  parser produced, with the arguments \<open>pre\<close> before it. If \<open>v\<close> is not yet in
  \<open>_variables\<close> and does not occur as an operand in \<open>pre\<close> (at any depth), this is its
  first occurrence and the emitter emits the assignment \<open>v = t;\<close> from its target
  operand \<open>t\<close> (with the type in front unless \<open>v\<close> was declared); otherwise it emits
  \<open>if (t != v) return 0;\<close>. Afterwards \<open>v\<close> is in \<open>_variables\<close>, and \<open>_variables\<close>
  holds, among the names of the parser's shape, exactly those it held before and those
  that occurred as operands: so every later occurrence in the rule is a check. The
  emitter starts a rule with \<open>_variables\<close> empty.
\<close>

theorem variable_first_binds_later_checks:
  assumes run: "emit_check_args e target comm i (pre @ TOK_VAR v # post) indentation = Inr (out, e')"
    and pv: "parse_variable w = TOK_VAR v"
    and w: "set w \<subseteq> variable_chars"
  shows "\<exists>out1 e1 t out2.
           emit_check_args e target comm i pre indentation = Inr (out1, e1)
         \<and> target_arg target comm (i + length pre) = Inr t
         \<and> out = out1
             @ (if v \<in> variables e \<or> v \<in> set (concat (map var_args pre))
                then spaces indentation @ ''if ('' @ t @ '' != '' @ v @ '') return 0;\<newline>''
                else spaces indentation
                       @ (if v \<notin> declared_vars e then ''Varnode* '' else [])
                       @ v @ '' = '' @ t @ '';\<newline>'')
             @ ''\<newline>'' @ out2
         \<and> v \<in> variables e'
         \<and> (\<forall>u. \<not> ends_digit u \<longrightarrow>
                (u \<in> variables e' \<longleftrightarrow>
                   u \<in> variables e \<or> u \<in> set (concat (map var_args (pre @ TOK_VAR v # post)))))"
proof -
  from run obtain out1 e1 rest where
    p: "emit_check_args e target comm i pre indentation = Inr (out1, e1)"
    and r: "emit_check_args e1 target comm (i + length pre) (TOK_VAR v # post) indentation
              = Inr (rest, e')"
    and o: "out = out1 @ rest"
    unfolding emit_check_args_append by blast
  from r obtain t s e2 out2 where
    t: "target_arg target comm (i + length pre) = Inr t"
    and a: "emit_check_arg e1 t (comm \<noteq> None) (TOK_VAR v) indentation = Inr (s, e2)"
    and q: "emit_check_args e2 target comm (i + length pre + 1) post indentation = Inr (out2, e')"
    and rest: "rest = s @ ''\<newline>'' @ out2"
    by (auto simp: ebind_eq_Inr)
  have nd: "\<not> ends_digit v" using pv w by (rule parser_variable_not_generated)
  have b1: "bound_step e e1 (concat (map var_args pre))"
    using p by (rule emit_check_bound_step(3))
  have ball: "bound_step e e' (concat (map var_args (pre @ TOK_VAR v # post)))"
    using run by (rule emit_check_bound_step(3))
  from b1 nd have mem: "v \<in> variables e1 \<longleftrightarrow> v \<in> variables e \<or> v \<in> set (concat (map var_args pre))"
    by (simp add: bound_step_def)
  from b1 have decl: "declared_vars e1 = declared_vars e" by (simp add: bound_step_def)
  from a mem decl have s: "s = (if v \<in> variables e \<or> v \<in> set (concat (map var_args pre))
                then spaces indentation @ ''if ('' @ t @ '' != '' @ v @ '') return 0;\<newline>''
                else spaces indentation
                       @ (if v \<notin> declared_vars e then ''Varnode* '' else [])
                       @ v @ '' = '' @ t @ '';\<newline>'')"
    by (auto simp: emit_check_equality_def emit_check_def emit_create_varnode_def
        split: if_splits)
  from ball nd have ve': "v \<in> variables e'" by (simp add: bound_step_def)
  from ball have all: "\<forall>u. \<not> ends_digit u \<longrightarrow>
                (u \<in> variables e' \<longleftrightarrow>
                   u \<in> variables e \<or> u \<in> set (concat (map var_args (pre @ TOK_VAR v # post))))"
    by (simp add: bound_step_def)
  from p t o rest s ve' all show ?thesis by (intro exI [of _ out1] exI [of _ e1] exI [of _ t] exI [of _ out2]) simp
qed

theorem variable_first_binds_later_checks_witness:
  "emit_check_args Emitter_init ''op'' None 0 ([TOK_VAR ''autovar_x''] @ TOK_VAR ''autovar_x'' # []) 2 = Inr ((''  Varnode* autovar_x = op->getIn(0);\<newline>\<newline>'' @ ''  if (op->getIn(1) != autovar_x) return 0;\<newline>\<newline>''), \<lparr>variables = {''autovar_x''}, declared_vars = {}\<rparr>)
   \<and> parse_variable ''x'' = TOK_VAR ''autovar_x''
   \<and> set ''x'' \<subseteq> variable_chars
   \<and> (\<exists>out1 e1 t out2.
           emit_check_args Emitter_init ''op'' None 0 [TOK_VAR ''autovar_x''] 2 = Inr (out1, e1)
         \<and> target_arg ''op'' None (0 + length [TOK_VAR ''autovar_x'']) = Inr t
         \<and> (''  Varnode* autovar_x = op->getIn(0);\<newline>\<newline>'' @ ''  if (op->getIn(1) != autovar_x) return 0;\<newline>\<newline>'') = out1
             @ (if ''autovar_x'' \<in> variables Emitter_init \<or> ''autovar_x'' \<in> set (concat (map var_args [TOK_VAR ''autovar_x'']))
                then spaces 2 @ ''if ('' @ t @ '' != '' @ ''autovar_x'' @ '') return 0;\<newline>''
                else spaces 2
                       @ (if ''autovar_x'' \<notin> declared_vars Emitter_init then ''Varnode* '' else [])
                       @ ''autovar_x'' @ '' = '' @ t @ '';\<newline>'')
             @ ''\<newline>'' @ out2
         \<and> ''autovar_x'' \<in> variables \<lparr>variables = {''autovar_x''}, declared_vars = {}\<rparr>
         \<and> (\<forall>u. \<not> ends_digit u \<longrightarrow>
                (u \<in> variables \<lparr>variables = {''autovar_x''}, declared_vars = {}\<rparr> \<longleftrightarrow>
                   u \<in> variables Emitter_init \<or> u \<in> set (concat (map var_args ([TOK_VAR ''autovar_x''] @ TOK_VAR ''autovar_x'' # []))))))"
proof -
  have run: "emit_check_args Emitter_init ''op'' None 0 ([TOK_VAR ''autovar_x''] @ TOK_VAR ''autovar_x'' # []) 2 = Inr ((''  Varnode* autovar_x = op->getIn(0);\<newline>\<newline>'' @ ''  if (op->getIn(1) != autovar_x) return 0;\<newline>\<newline>''), \<lparr>variables = {''autovar_x''}, declared_vars = {}\<rparr>)"
    by (simp add: eval_simps)
  have pv: "parse_variable ''x'' = TOK_VAR ''autovar_x''"
    by (simp add: parse_variable_def)
  have w: "set ''x'' \<subseteq> variable_chars"
    by (simp add: variable_chars_def)
  show ?thesis
    by (rule conjI [OF run conjI [OF pv conjI [OF w
          variable_first_binds_later_checks [OF run pv w]]]])
qed

section \<open>Commutative and non-commutative opcodes\<close>

lemma emit_check_args_segments:
  "emit_check_args e target comm i args n = Inr (body, e') \<Longrightarrow>
     \<exists>outs es. length outs = length args \<and> length es = Suc (length args)
       \<and> es ! 0 = e \<and> es ! length args = e'
       \<and> body = concat (map (\<lambda>out. out @ ''\<newline>'') outs)
       \<and> (\<forall>j<length args. \<exists>t. target_arg target comm (i + j) = Inr t
              \<and> emit_check_arg (es ! j) t (comm \<noteq> None) (args ! j) n = Inr (outs ! j, es ! Suc j))"
proof (induction args arbitrary: e i body)
  case Nil
  then show ?case by (intro exI [of _ "[]"] exI [of _ "[e]"]) simp
next
  case (Cons arg rest)
  from Cons.prems obtain t o1 e1 o2 where
    t: "target_arg target comm i = Inr t"
    and a: "emit_check_arg e t (comm \<noteq> None) arg n = Inr (o1, e1)"
    and r: "emit_check_args e1 target comm (i + 1) rest n = Inr (o2, e')"
    and b: "body = o1 @ ''\<newline>'' @ o2"
    by (auto simp: ebind_eq_Inr)
  from Cons.IH [OF r] obtain outs es where
    l1: "length outs = length rest" and l2: "length es = Suc (length rest)"
    and e0: "es ! 0 = e1" and el: "es ! length rest = e'"
    and o2: "o2 = concat (map (\<lambda>out. out @ ''\<newline>'') outs)"
    and seg: "\<forall>j<length rest. \<exists>t. target_arg target comm (i + 1 + j) = Inr t
              \<and> emit_check_arg (es ! j) t (comm \<noteq> None) (rest ! j) n = Inr (outs ! j, es ! Suc j)"
    by blast
  have "\<forall>j<length (arg # rest). \<exists>t. target_arg target comm (i + j) = Inr t
          \<and> emit_check_arg ((e # es) ! j) t (comm \<noteq> None) ((arg # rest) ! j) n
              = Inr ((o1 # outs) ! j, (e # es) ! Suc j)"
  proof (intro allI impI)
    fix j assume j: "j < length (arg # rest)"
    show "\<exists>t. target_arg target comm (i + j) = Inr t
          \<and> emit_check_arg ((e # es) ! j) t (comm \<noteq> None) ((arg # rest) ! j) n
              = Inr ((o1 # outs) ! j, (e # es) ! Suc j)"
    proof (cases j)
      case 0
      with t a e0 show ?thesis by simp
    next
      case (Suc k)
      with j have "k < length rest" by simp
      with seg have "\<exists>t. target_arg target comm (i + 1 + k) = Inr t
              \<and> emit_check_arg (es ! k) t (comm \<noteq> None) (rest ! k) n = Inr (outs ! k, es ! Suc k)"
        by blast
      with Suc show ?thesis by simp
    qed
  qed
  with l1 l2 el b o2 show ?case
    by (intro exI [of _ "o1 # outs"] exI [of _ "e # es"]) simp
qed

lemma get_free_name_fresh:
  assumes "get_free_name e p = Inr (name, e')"
  shows "name \<notin> variables e" and "variables e' = insert name (variables e)"
    and "declared_vars e' = declared_vars e"
  using assms get_free_name_from_Some [of "variables e" p 0 name]
  by (auto simp: get_free_name_def split: option.splits)

lemma emit_check_mono:
  shows "emit_check_opcode e varnode opcode n = Inr (out, e') \<Longrightarrow> variables e \<subseteq> variables e'"
    and "emit_check_opcode_children e target opcode n = Inr (out, e') \<Longrightarrow> variables e \<subseteq> variables e'"
    and "emit_check_args e target comm i args n = Inr (out, e') \<Longrightarrow> variables e \<subseteq> variables e'"
    and "emit_check_arg e t c arg n = Inr (out, e') \<Longrightarrow> variables e \<subseteq> variables e'"
proof (induction e varnode opcode n and e target opcode n and e target comm i args n
    and e t c arg n arbitrary: out e' and out e' and out e' and out e'
    rule: emit_check_opcode_emit_check_opcode_children_emit_check_args_emit_check_arg.induct)
  case (1 e varnode name args num_indent)
  from "1.prems" obtain vc pv e1 ch where
    a: "get_free_name e ''temp_pcode'' = Inr (pv, e1)"
    and t: "to_c varnode = Inr vc"
    and b: "emit_check_opcode_children e1 pv (TOK_OPCODE name args) num_indent = Inr (ch, e')"
    by (auto simp: ebind_eq_Inr)
  from "1.IH" [OF t a refl b] get_free_name_fresh(2) [OF a]
  show ?case by auto
next
  case (3 e target name args indentation)
  show ?case
  proof (cases "name \<in> set COMMUTATIVE_OP_NAMES")
    case True
    with "3.prems" obtain chk e1 l e2 r e3 body e4 a e5 b where
      s1: "get_free_name e (''check_'' @ rsplit_last (lower name)) = Inr (chk, e1)"
      and s2: "get_free_name e1 ''autovar_left'' = Inr (l, e2)"
      and s3: "get_free_name e2 ''autovar_right'' = Inr (r, e3)"
      and s4: "emit_check_args e3 target (Some (l, r)) 0 args (indentation + 2) = Inr (body, e4)"
      and s5: "get_free_name e4 ''autovar'' = Inr (a, e5)"
      and s6: "get_free_name e5 ''autovar'' = Inr (b, e')"
      by (auto simp: ebind_eq_Inr)
    have "variables e3 \<subseteq> variables e4"
      using "3.IH"(1) [OF True s1 refl s2 refl s3 refl s4] .
    with get_free_name_fresh(2) [OF s1] get_free_name_fresh(2) [OF s2]
      get_free_name_fresh(2) [OF s3] get_free_name_fresh(2) [OF s5]
      get_free_name_fresh(2) [OF s6]
    show ?thesis by auto
  next
    case False
    with "3.prems" obtain body where
      s: "emit_check_args e target None 0 args indentation = Inr (body, e')"
      by (auto simp: ebind_eq_Inr)
    from "3.IH"(2) [OF False s] show ?thesis .
  qed
next
  case (6 e target comm i arg rest indentation)
  from "6.prems" obtain t o1 e1 o2 where
    t: "target_arg target comm i = Inr t"
    and a: "emit_check_arg e t (comm \<noteq> None) arg indentation = Inr (o1, e1)"
    and b: "emit_check_args e1 target comm (i + 1) rest indentation = Inr (o2, e')"
    by (auto simp: ebind_eq_Inr)
  from "6.IH"(1) [OF t a] "6.IH"(2) [OF t a refl b]
  show ?case by auto
next
  case (7 e t is_commutative var_name indentation)
  then show ?case by (auto split: if_splits)
next
  case (9 e t is_commutative name args indentation)
  show ?case
  proof (cases is_commutative)
    case True
    with "9.prems" "9.IH"(1) show ?thesis by simp
  next
    case False
    with "9.prems" obtain vn e1 o1 where
      a: "get_free_name e ''autovar'' = Inr (vn, e1)"
      and b: "emit_check_opcode e1 (TOK_VAR vn) (TOK_OPCODE name args) indentation = Inr (o1, e')"
      by (auto simp: ebind_eq_Inr)
    from "9.IH"(2) [OF False a refl b] get_free_name_fresh(2) [OF a]
    show ?thesis by auto
  qed
qed (auto simp: ebind_eq_Inr)

lemma emit_check_arg_checked_against:
  assumes "emit_check_arg e t c arg n = Inr (out, e')"
  shows "checked_against e t c arg n out e'"
proof (cases arg)
  case (TOK_VAR v)
  with assms show ?thesis
    by (auto simp: checked_against_def emit_check_equality_def emit_check_def
        emit_create_varnode_def split: if_splits)
next
  case (TOK_SIZEOF v)
  with assms show ?thesis by simp
next
  case (TOK_NUMBER val_repr sz)
  with assms show ?thesis
    by (cases sz) (auto simp: checked_against_def ebind_eq_Inr)
next
  case (TOK_BINARY_OPERATION k l r)
  with assms show ?thesis
    by (auto simp: checked_against_def ebind_eq_Inr)
next
  case (TOK_OPCODE name args)
  show ?thesis
  proof (cases c)
    case True
    with assms TOK_OPCODE obtain vc pv e1 ch where
      t: "to_c (TOK_VAR t) = Inr vc"
      and a: "get_free_name e ''temp_pcode'' = Inr (pv, e1)"
      and b: "emit_check_opcode_children e1 pv (TOK_OPCODE name args) n = Inr (ch, e')"
      and o: "out = check_opcode_text vc pv name n @ ch"
      by (auto simp: ebind_eq_Inr)
    from t have vc: "vc = t" by simp
    have o': "out = spaces n @ ''if (! '' @ t @ ''->isWritten()) return 0;\<newline>''
                      @ spaces n @ ''PcodeOp* '' @ pv @ '' = '' @ t @ ''->getDef();\<newline>''
                      @ spaces n @ ''if ('' @ pv @ ''->code() != CPUI_'' @ name
                      @ '') return 0;\<newline>''
                      @ ch"
      unfolding o vc check_opcode_text_def emit_check_equality_def emit_check_def by simp
    have "(if c then t = t \<and> e = e else get_free_name e ''autovar'' = Inr (t, e))
             \<and> get_free_name e ''temp_pcode'' = Inr (pv, e1)
             \<and> emit_check_opcode_children e1 pv (TOK_OPCODE name args) n = Inr (ch, e')
             \<and> out = (if c then []
                       else spaces n @ (if t \<notin> declared_vars e then ''Varnode* '' else [])
                              @ t @ '' = '' @ t @ '';\<newline>'')
                      @ spaces n @ ''if (! '' @ t @ ''->isWritten()) return 0;\<newline>''
                      @ spaces n @ ''PcodeOp* '' @ pv @ '' = '' @ t @ ''->getDef();\<newline>''
                      @ spaces n @ ''if ('' @ pv @ ''->code() != CPUI_'' @ name
                      @ '') return 0;\<newline>''
                      @ ch"
      using True a b o' by (simp del: emit_check_opcode_children.simps)
    then show ?thesis
      unfolding checked_against_def TOK_OPCODE token.case by blast
  next
    case False
    with assms TOK_OPCODE obtain vn e0 o1 where
      f: "get_free_name e ''autovar'' = Inr (vn, e0)"
      and c1: "emit_check_opcode e0 (TOK_VAR vn) (TOK_OPCODE name args) n = Inr (o1, e')"
      and o: "out = emit_create_varnode e0 vn t n @ o1"
      by (auto simp: ebind_eq_Inr)
    from c1 obtain pv e1 ch where
      a: "get_free_name e0 ''temp_pcode'' = Inr (pv, e1)"
      and b: "emit_check_opcode_children e1 pv (TOK_OPCODE name args) n = Inr (ch, e')"
      and o1: "o1 = check_opcode_text vn pv name n @ ch"
      by (auto simp: ebind_eq_Inr)
    note d = get_free_name_fresh(3) [OF f]
    have o': "out = spaces n @ (if vn \<notin> declared_vars e then ''Varnode* '' else [])
                      @ vn @ '' = '' @ t @ '';\<newline>''
                      @ spaces n @ ''if (! '' @ vn @ ''->isWritten()) return 0;\<newline>''
                      @ spaces n @ ''PcodeOp* '' @ pv @ '' = '' @ vn @ ''->getDef();\<newline>''
                      @ spaces n @ ''if ('' @ pv @ ''->code() != CPUI_'' @ name
                      @ '') return 0;\<newline>''
                      @ ch"
      unfolding o o1 check_opcode_text_def emit_check_equality_def emit_check_def
        emit_create_varnode_def d by simp
    have "(if c then vn = t \<and> e0 = e else get_free_name e ''autovar'' = Inr (vn, e0))
             \<and> get_free_name e0 ''temp_pcode'' = Inr (pv, e1)
             \<and> emit_check_opcode_children e1 pv (TOK_OPCODE name args) n = Inr (ch, e')
             \<and> out = (if c then []
                       else spaces n @ (if vn \<notin> declared_vars e then ''Varnode* '' else [])
                              @ vn @ '' = '' @ t @ '';\<newline>'')
                      @ spaces n @ ''if (! '' @ vn @ ''->isWritten()) return 0;\<newline>''
                      @ spaces n @ ''PcodeOp* '' @ pv @ '' = '' @ vn @ ''->getDef();\<newline>''
                      @ spaces n @ ''if ('' @ pv @ ''->code() != CPUI_'' @ name
                      @ '') return 0;\<newline>''
                      @ ch"
      using False f a b o' by (simp del: emit_check_opcode_children.simps)
    then show ?thesis
      unfolding checked_against_def TOK_OPCODE token.case by blast
  qed
next
  case (TOK_OPCODE_OR els)
  with assms show ?thesis by simp
qed

text \<open>
  Claim C2. When the opcode is in the commutative set, the emitted matcher is: the
  comment line; a helper \<open>chk\<close> with the two parameters \<open>l\<close> and \<open>r\<close>, in which
  argument 0 is checked against \<open>l\<close> and argument 1 against \<open>r\<close> (there are at most
  two arguments) and which ends in \<open>return 1;\<close>; two locals \<open>a\<close> and \<open>b\<close> assigned
  \<open>target->getIn(0)\<close> and \<open>target->getIn(1)\<close>; and the guard
  \<open>if ((! chk(a, b)) && (! chk(b, a))) return 0;\<close>, which calls the helper with the
  inputs in the order (0, 1), then (1, 0), and fails only if both calls fail. The five
  names come from the fresh-name generator, in this order, and are pairwise different.
  When the opcode is not commutative, the text after the comment line is, for each
  argument \<open>j\<close> in order, the check of that argument against the operand
  \<open>target->getIn(j)\<close>, and nothing else. What the check of an argument against an
  operand is, for each kind of argument, is \<open>checked_against\<close>.
\<close>

theorem commutative_both_orderings_else_textual:
  assumes run: "emit_check_opcode_children e target (TOK_OPCODE name args) indentation = Inr (out, e')"
  shows "(name \<in> set COMMUTATIVE_OP_NAMES \<longrightarrow>
           (\<exists>chk l r a b e1 e2 e3 e4 e5 outs es.
              get_free_name e (''check_'' @ rsplit_last (lower name)) = Inr (chk, e1)
            \<and> get_free_name e1 ''autovar_left'' = Inr (l, e2)
            \<and> get_free_name e2 ''autovar_right'' = Inr (r, e3)
            \<and> get_free_name e4 ''autovar'' = Inr (a, e5)
            \<and> get_free_name e5 ''autovar'' = Inr (b, e')
            \<and> distinct [chk, l, r, a, b]
            \<and> length args \<le> 2 \<and> length outs = length args \<and> length es = Suc (length args)
            \<and> es ! 0 = e3 \<and> es ! length args = e4
            \<and> (\<forall>j<length args.
                  checked_against (es ! j) ([l, r] ! j) True (args ! j) (indentation + 2)
                    (outs ! j) (es ! Suc j))
            \<and> out = ''\<newline>'' @ spaces indentation @ ''// Checks ''
                @ to_pretty (TOK_OPCODE name args) @ ''\<newline>''
                @ spaces indentation @ ''auto '' @ chk @ '' = [&](Varnode* '' @ l
                @ '', Varnode* '' @ r @ '') -> int4 {\<newline>''
                @ concat (map (\<lambda>out. out @ ''\<newline>'') outs)
                @ spaces indentation @ ''  return 1;\<newline>''
                @ spaces indentation @ ''};\<newline>\<newline>''
                @ spaces indentation @ (if a \<notin> declared_vars e' then ''Varnode* '' else [])
                @ a @ '' = '' @ target @ ''->getIn(0);\<newline>''
                @ spaces indentation @ (if b \<notin> declared_vars e' then ''Varnode* '' else [])
                @ b @ '' = '' @ target @ ''->getIn(1);\<newline>''
                @ spaces indentation @ ''if ((! '' @ chk @ ''('' @ a @ '', '' @ b
                @ '')) && (! '' @ chk @ ''('' @ b @ '', '' @ a @ '')))\<newline>''
                @ spaces indentation @ ''  return 0;\<newline>''))
       \<and> (name \<notin> set COMMUTATIVE_OP_NAMES \<longrightarrow>
           (\<exists>outs es.
              length outs = length args \<and> length es = Suc (length args)
            \<and> es ! 0 = e \<and> es ! length args = e'
            \<and> (\<forall>j<length args.
                  checked_against (es ! j) (target @ ''->getIn('' @ str_nat j @ '')'') False
                    (args ! j) indentation (outs ! j) (es ! Suc j))
            \<and> out = ''\<newline>'' @ spaces indentation @ ''// Checks ''
                @ to_pretty (TOK_OPCODE name args) @ ''\<newline>''
                @ concat (map (\<lambda>out. out @ ''\<newline>'') outs)))"
proof (intro conjI impI)
  assume c: "name \<in> set COMMUTATIVE_OP_NAMES"
  with run obtain chk e1 l e2 r e3 body e4 a e5 b where
    s1: "get_free_name e (''check_'' @ rsplit_last (lower name)) = Inr (chk, e1)"
    and s2: "get_free_name e1 ''autovar_left'' = Inr (l, e2)"
    and s3: "get_free_name e2 ''autovar_right'' = Inr (r, e3)"
    and s4: "emit_check_args e3 target (Some (l, r)) 0 args (indentation + 2) = Inr (body, e4)"
    and s5: "get_free_name e4 ''autovar'' = Inr (a, e5)"
    and s6: "get_free_name e5 ''autovar'' = Inr (b, e')"
    and out: "out = checks_comment (TOK_OPCODE name args) indentation
                 @ lambda_open chk l r indentation @ body
                 @ lambda_close e' target chk a b indentation"
    by (auto simp: ebind_eq_Inr)
  have d: "distinct [chk, l, r, a, b]"
    using get_free_name_fresh(1,2) [OF s1] get_free_name_fresh(1,2) [OF s2]
      get_free_name_fresh(1,2) [OF s3] emit_check_mono(3) [OF s4]
      get_free_name_fresh(1,2) [OF s5] get_free_name_fresh(1,2) [OF s6]
    by auto
  from emit_check_args_segments [OF s4] obtain outs es where
    l1: "length outs = length args" and l2: "length es = Suc (length args)"
    and e0: "es ! 0 = e3" and el: "es ! length args = e4"
    and body: "body = concat (map (\<lambda>out. out @ ''\<newline>'') outs)"
    and seg: "\<forall>j<length args. \<exists>t. target_arg target (Some (l, r)) (0 + j) = Inr t
              \<and> emit_check_arg (es ! j) t (Some (l, r) \<noteq> None) (args ! j) (indentation + 2)
                  = Inr (outs ! j, es ! Suc j)"
    by blast
  have len: "length args \<le> 2"
  proof (rule ccontr)
    assume "\<not> length args \<le> 2"
    then have "2 < length args" by simp
    with seg have "\<exists>t. target_arg target (Some (l, r)) (0 + 2) = Inr t" by blast
    then show False by simp
  qed
  have segs: "\<forall>j<length args.
                  checked_against (es ! j) ([l, r] ! j) True (args ! j) (indentation + 2)
                    (outs ! j) (es ! Suc j)"
  proof (intro allI impI)
    fix j assume j: "j < length args"
    with seg obtain t where t: "target_arg target (Some (l, r)) (0 + j) = Inr t"
      and a: "emit_check_arg (es ! j) t (Some (l, r) \<noteq> None) (args ! j) (indentation + 2)
                  = Inr (outs ! j, es ! Suc j)" by blast
    from j len have "j = 0 \<or> j = 1" by auto
    with t have "t = [l, r] ! j" by auto
    with a have "emit_check_arg (es ! j) ([l, r] ! j) True (args ! j) (indentation + 2)
                    = Inr (outs ! j, es ! Suc j)" by simp
    then show "checked_against (es ! j) ([l, r] ! j) True (args ! j) (indentation + 2)
                    (outs ! j) (es ! Suc j)"
      by (rule emit_check_arg_checked_against)
  qed
  have out': "out = ''\<newline>'' @ spaces indentation @ ''// Checks ''
                @ to_pretty (TOK_OPCODE name args) @ ''\<newline>''
                @ spaces indentation @ ''auto '' @ chk @ '' = [&](Varnode* '' @ l
                @ '', Varnode* '' @ r @ '') -> int4 {\<newline>''
                @ concat (map (\<lambda>out. out @ ''\<newline>'') outs)
                @ spaces indentation @ ''  return 1;\<newline>''
                @ spaces indentation @ ''};\<newline>\<newline>''
                @ spaces indentation @ (if a \<notin> declared_vars e' then ''Varnode* '' else [])
                @ a @ '' = '' @ target @ ''->getIn(0);\<newline>''
                @ spaces indentation @ (if b \<notin> declared_vars e' then ''Varnode* '' else [])
                @ b @ '' = '' @ target @ ''->getIn(1);\<newline>''
                @ spaces indentation @ ''if ((! '' @ chk @ ''('' @ a @ '', '' @ b
                @ '')) && (! '' @ chk @ ''('' @ b @ '', '' @ a @ '')))\<newline>''
                @ spaces indentation @ ''  return 0;\<newline>''"
    unfolding out body checks_comment_def lambda_open_def lambda_close_def lambda_guard_def
      emit_create_varnode_def by simp
  show "(\<exists>chk l r a b e1 e2 e3 e4 e5 outs es.
              get_free_name e (''check_'' @ rsplit_last (lower name)) = Inr (chk, e1)
            \<and> get_free_name e1 ''autovar_left'' = Inr (l, e2)
            \<and> get_free_name e2 ''autovar_right'' = Inr (r, e3)
            \<and> get_free_name e4 ''autovar'' = Inr (a, e5)
            \<and> get_free_name e5 ''autovar'' = Inr (b, e')
            \<and> distinct [chk, l, r, a, b]
            \<and> length args \<le> 2 \<and> length outs = length args \<and> length es = Suc (length args)
            \<and> es ! 0 = e3 \<and> es ! length args = e4
            \<and> (\<forall>j<length args.
                  checked_against (es ! j) ([l, r] ! j) True (args ! j) (indentation + 2)
                    (outs ! j) (es ! Suc j))
            \<and> out = ''\<newline>'' @ spaces indentation @ ''// Checks ''
                @ to_pretty (TOK_OPCODE name args) @ ''\<newline>''
                @ spaces indentation @ ''auto '' @ chk @ '' = [&](Varnode* '' @ l
                @ '', Varnode* '' @ r @ '') -> int4 {\<newline>''
                @ concat (map (\<lambda>out. out @ ''\<newline>'') outs)
                @ spaces indentation @ ''  return 1;\<newline>''
                @ spaces indentation @ ''};\<newline>\<newline>''
                @ spaces indentation @ (if a \<notin> declared_vars e' then ''Varnode* '' else [])
                @ a @ '' = '' @ target @ ''->getIn(0);\<newline>''
                @ spaces indentation @ (if b \<notin> declared_vars e' then ''Varnode* '' else [])
                @ b @ '' = '' @ target @ ''->getIn(1);\<newline>''
                @ spaces indentation @ ''if ((! '' @ chk @ ''('' @ a @ '', '' @ b
                @ '')) && (! '' @ chk @ ''('' @ b @ '', '' @ a @ '')))\<newline>''
                @ spaces indentation @ ''  return 0;\<newline>'')"
    apply (rule exI [of _ chk], rule exI [of _ l], rule exI [of _ r], rule exI [of _ a],
        rule exI [of _ b], rule exI [of _ e1], rule exI [of _ e2], rule exI [of _ e3],
        rule exI [of _ e4], rule exI [of _ e5], rule exI [of _ outs], rule exI [of _ es])
    apply (intro conjI s1 s2 s3 s5 s6 d len l1 l2 e0 el segs out')
    done
next
  assume c: "name \<notin> set COMMUTATIVE_OP_NAMES"
  with run obtain body where
    s: "emit_check_args e target None 0 args indentation = Inr (body, e')"
    and out: "out = checks_comment (TOK_OPCODE name args) indentation @ body"
    by (auto simp: ebind_eq_Inr)
  from emit_check_args_segments [OF s] obtain outs es where
    l1: "length outs = length args" and l2: "length es = Suc (length args)"
    and e0: "es ! 0 = e" and el: "es ! length args = e'"
    and body: "body = concat (map (\<lambda>out. out @ ''\<newline>'') outs)"
    and seg: "\<forall>j<length args. \<exists>t. target_arg target None (0 + j) = Inr t
              \<and> emit_check_arg (es ! j) t (None \<noteq> (None :: (string \<times> string) option))
                    (args ! j) indentation
                  = Inr (outs ! j, es ! Suc j)"
    by blast
  have segs: "\<forall>j<length args.
                  checked_against (es ! j) (target @ ''->getIn('' @ str_nat j @ '')'') False
                    (args ! j) indentation (outs ! j) (es ! Suc j)"
  proof (intro allI impI)
    fix j assume j: "j < length args"
    with seg have "emit_check_arg (es ! j) (target @ ''->getIn('' @ str_nat j @ '')'') False
                      (args ! j) indentation = Inr (outs ! j, es ! Suc j)"
      by simp
    then show "checked_against (es ! j) (target @ ''->getIn('' @ str_nat j @ '')'') False
                    (args ! j) indentation (outs ! j) (es ! Suc j)"
      by (rule emit_check_arg_checked_against)
  qed
  have out': "out = ''\<newline>'' @ spaces indentation @ ''// Checks ''
                @ to_pretty (TOK_OPCODE name args) @ ''\<newline>''
                @ concat (map (\<lambda>out. out @ ''\<newline>'') outs)"
    unfolding out body checks_comment_def by simp
  show "(\<exists>outs es.
              length outs = length args \<and> length es = Suc (length args)
            \<and> es ! 0 = e \<and> es ! length args = e'
            \<and> (\<forall>j<length args.
                  checked_against (es ! j) (target @ ''->getIn('' @ str_nat j @ '')'') False
                    (args ! j) indentation (outs ! j) (es ! Suc j))
            \<and> out = ''\<newline>'' @ spaces indentation @ ''// Checks ''
                @ to_pretty (TOK_OPCODE name args) @ ''\<newline>''
                @ concat (map (\<lambda>out. out @ ''\<newline>'') outs))"
    apply (rule exI [of _ outs], rule exI [of _ es])
    apply (intro conjI l1 l2 e0 el segs out')
    done
qed

theorem commutative_both_orderings_else_textual_witness:
  "(\<exists>e'. emit_check_opcode_children Emitter_init ''op'' (TOK_OPCODE ''INT_ADD'' [TOK_VAR ''autovar_x'', TOK_OPCODE ''INT_SUB'' [TOK_VAR ''autovar_y'', TOK_BINARY_OPERATION TOK_BINOP_ADD (TOK_VAR ''autovar_x'') (TOK_NUMBER ''1'' (SizeStr ''8'' 8))]]) 2 = Inr ((''\<newline>''
        @ ''  // Checks INT_ADD(x, INT_SUB(y, x + 1)))\<newline>''
        @ ''  auto check_add_0 = [&](Varnode* autovar_left_0, Varnode* autovar_right_0) -> int4 {\<newline>''
        @ ''    Varnode* autovar_x = autovar_left_0;\<newline>''
        @ ''\<newline>''
        @ ''    if (! autovar_right_0->isWritten()) return 0;\<newline>''
        @ ''    PcodeOp* temp_pcode_0 = autovar_right_0->getDef();\<newline>''
        @ ''    if (temp_pcode_0->code() != CPUI_INT_SUB) return 0;\<newline>''
        @ ''\<newline>''
        @ ''    // Checks INT_SUB(y, x + 1))\<newline>''
        @ ''    Varnode* autovar_y = temp_pcode_0->getIn(0);\<newline>''
        @ ''\<newline>''
        @ ''    if (! temp_pcode_0->getIn(1)->constantMatch((autovar_x + 1))) return 0;\<newline>''
        @ ''\<newline>''
        @ ''\<newline>''
        @ ''    return 1;\<newline>''
        @ ''  };\<newline>''
        @ ''\<newline>''
        @ ''  Varnode* autovar_0 = op->getIn(0);\<newline>''
        @ ''  Varnode* autovar_1 = op->getIn(1);\<newline>''
        @ ''  if ((! check_add_0(autovar_0, autovar_1)) && (! check_add_0(autovar_1, autovar_0)))\<newline>''
        @ ''    return 0;\<newline>''), e')
      \<and> ''INT_ADD'' \<in> set COMMUTATIVE_OP_NAMES
      \<and> (\<exists>chk l r a b e1 e2 e3 e4 e5 outs es.
              get_free_name Emitter_init (''check_'' @ rsplit_last (lower ''INT_ADD'')) = Inr (chk, e1)
            \<and> get_free_name e1 ''autovar_left'' = Inr (l, e2)
            \<and> get_free_name e2 ''autovar_right'' = Inr (r, e3)
            \<and> get_free_name e4 ''autovar'' = Inr (a, e5)
            \<and> get_free_name e5 ''autovar'' = Inr (b, e')
            \<and> distinct [chk, l, r, a, b]
            \<and> length [TOK_VAR ''autovar_x'', TOK_OPCODE ''INT_SUB'' [TOK_VAR ''autovar_y'', TOK_BINARY_OPERATION TOK_BINOP_ADD (TOK_VAR ''autovar_x'') (TOK_NUMBER ''1'' (SizeStr ''8'' 8))]] \<le> 2 \<and> length outs = length [TOK_VAR ''autovar_x'', TOK_OPCODE ''INT_SUB'' [TOK_VAR ''autovar_y'', TOK_BINARY_OPERATION TOK_BINOP_ADD (TOK_VAR ''autovar_x'') (TOK_NUMBER ''1'' (SizeStr ''8'' 8))]] \<and> length es = Suc (length [TOK_VAR ''autovar_x'', TOK_OPCODE ''INT_SUB'' [TOK_VAR ''autovar_y'', TOK_BINARY_OPERATION TOK_BINOP_ADD (TOK_VAR ''autovar_x'') (TOK_NUMBER ''1'' (SizeStr ''8'' 8))]])
            \<and> es ! 0 = e3 \<and> es ! length [TOK_VAR ''autovar_x'', TOK_OPCODE ''INT_SUB'' [TOK_VAR ''autovar_y'', TOK_BINARY_OPERATION TOK_BINOP_ADD (TOK_VAR ''autovar_x'') (TOK_NUMBER ''1'' (SizeStr ''8'' 8))]] = e4
            \<and> (\<forall>j<length [TOK_VAR ''autovar_x'', TOK_OPCODE ''INT_SUB'' [TOK_VAR ''autovar_y'', TOK_BINARY_OPERATION TOK_BINOP_ADD (TOK_VAR ''autovar_x'') (TOK_NUMBER ''1'' (SizeStr ''8'' 8))]].
                  checked_against (es ! j) ([l, r] ! j) True ([TOK_VAR ''autovar_x'', TOK_OPCODE ''INT_SUB'' [TOK_VAR ''autovar_y'', TOK_BINARY_OPERATION TOK_BINOP_ADD (TOK_VAR ''autovar_x'') (TOK_NUMBER ''1'' (SizeStr ''8'' 8))]] ! j) (2 + 2)
                    (outs ! j) (es ! Suc j))
            \<and> (''\<newline>''
        @ ''  // Checks INT_ADD(x, INT_SUB(y, x + 1)))\<newline>''
        @ ''  auto check_add_0 = [&](Varnode* autovar_left_0, Varnode* autovar_right_0) -> int4 {\<newline>''
        @ ''    Varnode* autovar_x = autovar_left_0;\<newline>''
        @ ''\<newline>''
        @ ''    if (! autovar_right_0->isWritten()) return 0;\<newline>''
        @ ''    PcodeOp* temp_pcode_0 = autovar_right_0->getDef();\<newline>''
        @ ''    if (temp_pcode_0->code() != CPUI_INT_SUB) return 0;\<newline>''
        @ ''\<newline>''
        @ ''    // Checks INT_SUB(y, x + 1))\<newline>''
        @ ''    Varnode* autovar_y = temp_pcode_0->getIn(0);\<newline>''
        @ ''\<newline>''
        @ ''    if (! temp_pcode_0->getIn(1)->constantMatch((autovar_x + 1))) return 0;\<newline>''
        @ ''\<newline>''
        @ ''\<newline>''
        @ ''    return 1;\<newline>''
        @ ''  };\<newline>''
        @ ''\<newline>''
        @ ''  Varnode* autovar_0 = op->getIn(0);\<newline>''
        @ ''  Varnode* autovar_1 = op->getIn(1);\<newline>''
        @ ''  if ((! check_add_0(autovar_0, autovar_1)) && (! check_add_0(autovar_1, autovar_0)))\<newline>''
        @ ''    return 0;\<newline>'') = ''\<newline>'' @ spaces 2 @ ''// Checks ''
                @ to_pretty (TOK_OPCODE ''INT_ADD'' [TOK_VAR ''autovar_x'', TOK_OPCODE ''INT_SUB'' [TOK_VAR ''autovar_y'', TOK_BINARY_OPERATION TOK_BINOP_ADD (TOK_VAR ''autovar_x'') (TOK_NUMBER ''1'' (SizeStr ''8'' 8))]]) @ ''\<newline>''
                @ spaces 2 @ ''auto '' @ chk @ '' = [&](Varnode* '' @ l
                @ '', Varnode* '' @ r @ '') -> int4 {\<newline>''
                @ concat (map (\<lambda>out. out @ ''\<newline>'') outs)
                @ spaces 2 @ ''  return 1;\<newline>''
                @ spaces 2 @ ''};\<newline>\<newline>''
                @ spaces 2 @ (if a \<notin> declared_vars e' then ''Varnode* '' else [])
                @ a @ '' = '' @ ''op'' @ ''->getIn(0);\<newline>''
                @ spaces 2 @ (if b \<notin> declared_vars e' then ''Varnode* '' else [])
                @ b @ '' = '' @ ''op'' @ ''->getIn(1);\<newline>''
                @ spaces 2 @ ''if ((! '' @ chk @ ''('' @ a @ '', '' @ b
                @ '')) && (! '' @ chk @ ''('' @ b @ '', '' @ a @ '')))\<newline>''
                @ spaces 2 @ ''  return 0;\<newline>''))
   \<and> (\<exists>e'. emit_check_opcode_children Emitter_init ''op'' (TOK_OPCODE ''INT_SUB'' [TOK_VAR ''autovar_x'', TOK_NUMBER ''1'' (SizeTok (TOK_SIZEOF (TOK_VAR ''autovar_x''))), TOK_OPCODE ''INT_LEFT'' [TOK_VAR ''autovar_x'', TOK_VAR ''autovar_y''], TOK_BINARY_OPERATION TOK_BINOP_ADD (TOK_VAR ''autovar_x'') (TOK_NUMBER ''1'' (SizeStr ''8'' 8))]) 2 = Inr ((''\<newline>''
        @ ''  // Checks INT_SUB(x, 1:|x|, INT_LEFT(x, y), x + 1))\<newline>''
        @ ''  Varnode* autovar_x = op->getIn(0);\<newline>''
        @ ''\<newline>''
        @ ''  uintb masked_const = 1 & ((((uintb) 1) << (8 * autovar_x->getSize())) - 1);\<newline>''
        @ ''  if (! op->getIn(1)->constantMatch(masked_const)) return 0;\<newline>''
        @ ''\<newline>''
        @ ''  Varnode* autovar_0 = op->getIn(2);\<newline>''
        @ ''  if (! autovar_0->isWritten()) return 0;\<newline>''
        @ ''  PcodeOp* temp_pcode_0 = autovar_0->getDef();\<newline>''
        @ ''  if (temp_pcode_0->code() != CPUI_INT_LEFT) return 0;\<newline>''
        @ ''\<newline>''
        @ ''  // Checks INT_LEFT(x, y)\<newline>''
        @ ''  if (temp_pcode_0->getIn(0) != autovar_x) return 0;\<newline>''
        @ ''\<newline>''
        @ ''  Varnode* autovar_y = temp_pcode_0->getIn(1);\<newline>''
        @ ''\<newline>''
        @ ''\<newline>''
        @ ''  if (! op->getIn(3)->constantMatch((autovar_x + 1))) return 0;\<newline>''
        @ ''\<newline>''), e')
      \<and> ''INT_SUB'' \<notin> set COMMUTATIVE_OP_NAMES
      \<and> (\<exists>outs es.
              length outs = length [TOK_VAR ''autovar_x'', TOK_NUMBER ''1'' (SizeTok (TOK_SIZEOF (TOK_VAR ''autovar_x''))), TOK_OPCODE ''INT_LEFT'' [TOK_VAR ''autovar_x'', TOK_VAR ''autovar_y''], TOK_BINARY_OPERATION TOK_BINOP_ADD (TOK_VAR ''autovar_x'') (TOK_NUMBER ''1'' (SizeStr ''8'' 8))] \<and> length es = Suc (length [TOK_VAR ''autovar_x'', TOK_NUMBER ''1'' (SizeTok (TOK_SIZEOF (TOK_VAR ''autovar_x''))), TOK_OPCODE ''INT_LEFT'' [TOK_VAR ''autovar_x'', TOK_VAR ''autovar_y''], TOK_BINARY_OPERATION TOK_BINOP_ADD (TOK_VAR ''autovar_x'') (TOK_NUMBER ''1'' (SizeStr ''8'' 8))])
            \<and> es ! 0 = Emitter_init \<and> es ! length [TOK_VAR ''autovar_x'', TOK_NUMBER ''1'' (SizeTok (TOK_SIZEOF (TOK_VAR ''autovar_x''))), TOK_OPCODE ''INT_LEFT'' [TOK_VAR ''autovar_x'', TOK_VAR ''autovar_y''], TOK_BINARY_OPERATION TOK_BINOP_ADD (TOK_VAR ''autovar_x'') (TOK_NUMBER ''1'' (SizeStr ''8'' 8))] = e'
            \<and> (\<forall>j<length [TOK_VAR ''autovar_x'', TOK_NUMBER ''1'' (SizeTok (TOK_SIZEOF (TOK_VAR ''autovar_x''))), TOK_OPCODE ''INT_LEFT'' [TOK_VAR ''autovar_x'', TOK_VAR ''autovar_y''], TOK_BINARY_OPERATION TOK_BINOP_ADD (TOK_VAR ''autovar_x'') (TOK_NUMBER ''1'' (SizeStr ''8'' 8))].
                  checked_against (es ! j) (''op'' @ ''->getIn('' @ str_nat j @ '')'') False
                    ([TOK_VAR ''autovar_x'', TOK_NUMBER ''1'' (SizeTok (TOK_SIZEOF (TOK_VAR ''autovar_x''))), TOK_OPCODE ''INT_LEFT'' [TOK_VAR ''autovar_x'', TOK_VAR ''autovar_y''], TOK_BINARY_OPERATION TOK_BINOP_ADD (TOK_VAR ''autovar_x'') (TOK_NUMBER ''1'' (SizeStr ''8'' 8))] ! j) 2 (outs ! j) (es ! Suc j))
            \<and> (''\<newline>''
        @ ''  // Checks INT_SUB(x, 1:|x|, INT_LEFT(x, y), x + 1))\<newline>''
        @ ''  Varnode* autovar_x = op->getIn(0);\<newline>''
        @ ''\<newline>''
        @ ''  uintb masked_const = 1 & ((((uintb) 1) << (8 * autovar_x->getSize())) - 1);\<newline>''
        @ ''  if (! op->getIn(1)->constantMatch(masked_const)) return 0;\<newline>''
        @ ''\<newline>''
        @ ''  Varnode* autovar_0 = op->getIn(2);\<newline>''
        @ ''  if (! autovar_0->isWritten()) return 0;\<newline>''
        @ ''  PcodeOp* temp_pcode_0 = autovar_0->getDef();\<newline>''
        @ ''  if (temp_pcode_0->code() != CPUI_INT_LEFT) return 0;\<newline>''
        @ ''\<newline>''
        @ ''  // Checks INT_LEFT(x, y)\<newline>''
        @ ''  if (temp_pcode_0->getIn(0) != autovar_x) return 0;\<newline>''
        @ ''\<newline>''
        @ ''  Varnode* autovar_y = temp_pcode_0->getIn(1);\<newline>''
        @ ''\<newline>''
        @ ''\<newline>''
        @ ''  if (! op->getIn(3)->constantMatch((autovar_x + 1))) return 0;\<newline>''
        @ ''\<newline>'') = ''\<newline>'' @ spaces 2 @ ''// Checks ''
                @ to_pretty (TOK_OPCODE ''INT_SUB'' [TOK_VAR ''autovar_x'', TOK_NUMBER ''1'' (SizeTok (TOK_SIZEOF (TOK_VAR ''autovar_x''))), TOK_OPCODE ''INT_LEFT'' [TOK_VAR ''autovar_x'', TOK_VAR ''autovar_y''], TOK_BINARY_OPERATION TOK_BINOP_ADD (TOK_VAR ''autovar_x'') (TOK_NUMBER ''1'' (SizeStr ''8'' 8))]) @ ''\<newline>''
                @ concat (map (\<lambda>out. out @ ''\<newline>'') outs)))"
proof (intro conjI)
  have "\<exists>e'. emit_check_opcode_children Emitter_init ''op'' (TOK_OPCODE ''INT_ADD'' [TOK_VAR ''autovar_x'', TOK_OPCODE ''INT_SUB'' [TOK_VAR ''autovar_y'', TOK_BINARY_OPERATION TOK_BINOP_ADD (TOK_VAR ''autovar_x'') (TOK_NUMBER ''1'' (SizeStr ''8'' 8))]]) 2 = Inr ((''\<newline>''
        @ ''  // Checks INT_ADD(x, INT_SUB(y, x + 1)))\<newline>''
        @ ''  auto check_add_0 = [&](Varnode* autovar_left_0, Varnode* autovar_right_0) -> int4 {\<newline>''
        @ ''    Varnode* autovar_x = autovar_left_0;\<newline>''
        @ ''\<newline>''
        @ ''    if (! autovar_right_0->isWritten()) return 0;\<newline>''
        @ ''    PcodeOp* temp_pcode_0 = autovar_right_0->getDef();\<newline>''
        @ ''    if (temp_pcode_0->code() != CPUI_INT_SUB) return 0;\<newline>''
        @ ''\<newline>''
        @ ''    // Checks INT_SUB(y, x + 1))\<newline>''
        @ ''    Varnode* autovar_y = temp_pcode_0->getIn(0);\<newline>''
        @ ''\<newline>''
        @ ''    if (! temp_pcode_0->getIn(1)->constantMatch((autovar_x + 1))) return 0;\<newline>''
        @ ''\<newline>''
        @ ''\<newline>''
        @ ''    return 1;\<newline>''
        @ ''  };\<newline>''
        @ ''\<newline>''
        @ ''  Varnode* autovar_0 = op->getIn(0);\<newline>''
        @ ''  Varnode* autovar_1 = op->getIn(1);\<newline>''
        @ ''  if ((! check_add_0(autovar_0, autovar_1)) && (! check_add_0(autovar_1, autovar_0)))\<newline>''
        @ ''    return 0;\<newline>''), e')"
    by (simp add: eval_simps)
  then obtain e' where run: "emit_check_opcode_children Emitter_init ''op'' (TOK_OPCODE ''INT_ADD'' [TOK_VAR ''autovar_x'', TOK_OPCODE ''INT_SUB'' [TOK_VAR ''autovar_y'', TOK_BINARY_OPERATION TOK_BINOP_ADD (TOK_VAR ''autovar_x'') (TOK_NUMBER ''1'' (SizeStr ''8'' 8))]]) 2 = Inr ((''\<newline>''
        @ ''  // Checks INT_ADD(x, INT_SUB(y, x + 1)))\<newline>''
        @ ''  auto check_add_0 = [&](Varnode* autovar_left_0, Varnode* autovar_right_0) -> int4 {\<newline>''
        @ ''    Varnode* autovar_x = autovar_left_0;\<newline>''
        @ ''\<newline>''
        @ ''    if (! autovar_right_0->isWritten()) return 0;\<newline>''
        @ ''    PcodeOp* temp_pcode_0 = autovar_right_0->getDef();\<newline>''
        @ ''    if (temp_pcode_0->code() != CPUI_INT_SUB) return 0;\<newline>''
        @ ''\<newline>''
        @ ''    // Checks INT_SUB(y, x + 1))\<newline>''
        @ ''    Varnode* autovar_y = temp_pcode_0->getIn(0);\<newline>''
        @ ''\<newline>''
        @ ''    if (! temp_pcode_0->getIn(1)->constantMatch((autovar_x + 1))) return 0;\<newline>''
        @ ''\<newline>''
        @ ''\<newline>''
        @ ''    return 1;\<newline>''
        @ ''  };\<newline>''
        @ ''\<newline>''
        @ ''  Varnode* autovar_0 = op->getIn(0);\<newline>''
        @ ''  Varnode* autovar_1 = op->getIn(1);\<newline>''
        @ ''  if ((! check_add_0(autovar_0, autovar_1)) && (! check_add_0(autovar_1, autovar_0)))\<newline>''
        @ ''    return 0;\<newline>''), e')" ..
  have c: "''INT_ADD'' \<in> set COMMUTATIVE_OP_NAMES"
    by (simp add: COMMUTATIVE_OP_NAMES_def)
  from commutative_both_orderings_else_textual [OF run] c
  have "(\<exists>chk l r a b e1 e2 e3 e4 e5 outs es.
              get_free_name Emitter_init (''check_'' @ rsplit_last (lower ''INT_ADD'')) = Inr (chk, e1)
            \<and> get_free_name e1 ''autovar_left'' = Inr (l, e2)
            \<and> get_free_name e2 ''autovar_right'' = Inr (r, e3)
            \<and> get_free_name e4 ''autovar'' = Inr (a, e5)
            \<and> get_free_name e5 ''autovar'' = Inr (b, e')
            \<and> distinct [chk, l, r, a, b]
            \<and> length [TOK_VAR ''autovar_x'', TOK_OPCODE ''INT_SUB'' [TOK_VAR ''autovar_y'', TOK_BINARY_OPERATION TOK_BINOP_ADD (TOK_VAR ''autovar_x'') (TOK_NUMBER ''1'' (SizeStr ''8'' 8))]] \<le> 2 \<and> length outs = length [TOK_VAR ''autovar_x'', TOK_OPCODE ''INT_SUB'' [TOK_VAR ''autovar_y'', TOK_BINARY_OPERATION TOK_BINOP_ADD (TOK_VAR ''autovar_x'') (TOK_NUMBER ''1'' (SizeStr ''8'' 8))]] \<and> length es = Suc (length [TOK_VAR ''autovar_x'', TOK_OPCODE ''INT_SUB'' [TOK_VAR ''autovar_y'', TOK_BINARY_OPERATION TOK_BINOP_ADD (TOK_VAR ''autovar_x'') (TOK_NUMBER ''1'' (SizeStr ''8'' 8))]])
            \<and> es ! 0 = e3 \<and> es ! length [TOK_VAR ''autovar_x'', TOK_OPCODE ''INT_SUB'' [TOK_VAR ''autovar_y'', TOK_BINARY_OPERATION TOK_BINOP_ADD (TOK_VAR ''autovar_x'') (TOK_NUMBER ''1'' (SizeStr ''8'' 8))]] = e4
            \<and> (\<forall>j<length [TOK_VAR ''autovar_x'', TOK_OPCODE ''INT_SUB'' [TOK_VAR ''autovar_y'', TOK_BINARY_OPERATION TOK_BINOP_ADD (TOK_VAR ''autovar_x'') (TOK_NUMBER ''1'' (SizeStr ''8'' 8))]].
                  checked_against (es ! j) ([l, r] ! j) True ([TOK_VAR ''autovar_x'', TOK_OPCODE ''INT_SUB'' [TOK_VAR ''autovar_y'', TOK_BINARY_OPERATION TOK_BINOP_ADD (TOK_VAR ''autovar_x'') (TOK_NUMBER ''1'' (SizeStr ''8'' 8))]] ! j) (2 + 2)
                    (outs ! j) (es ! Suc j))
            \<and> (''\<newline>''
        @ ''  // Checks INT_ADD(x, INT_SUB(y, x + 1)))\<newline>''
        @ ''  auto check_add_0 = [&](Varnode* autovar_left_0, Varnode* autovar_right_0) -> int4 {\<newline>''
        @ ''    Varnode* autovar_x = autovar_left_0;\<newline>''
        @ ''\<newline>''
        @ ''    if (! autovar_right_0->isWritten()) return 0;\<newline>''
        @ ''    PcodeOp* temp_pcode_0 = autovar_right_0->getDef();\<newline>''
        @ ''    if (temp_pcode_0->code() != CPUI_INT_SUB) return 0;\<newline>''
        @ ''\<newline>''
        @ ''    // Checks INT_SUB(y, x + 1))\<newline>''
        @ ''    Varnode* autovar_y = temp_pcode_0->getIn(0);\<newline>''
        @ ''\<newline>''
        @ ''    if (! temp_pcode_0->getIn(1)->constantMatch((autovar_x + 1))) return 0;\<newline>''
        @ ''\<newline>''
        @ ''\<newline>''
        @ ''    return 1;\<newline>''
        @ ''  };\<newline>''
        @ ''\<newline>''
        @ ''  Varnode* autovar_0 = op->getIn(0);\<newline>''
        @ ''  Varnode* autovar_1 = op->getIn(1);\<newline>''
        @ ''  if ((! check_add_0(autovar_0, autovar_1)) && (! check_add_0(autovar_1, autovar_0)))\<newline>''
        @ ''    return 0;\<newline>'') = ''\<newline>'' @ spaces 2 @ ''// Checks ''
                @ to_pretty (TOK_OPCODE ''INT_ADD'' [TOK_VAR ''autovar_x'', TOK_OPCODE ''INT_SUB'' [TOK_VAR ''autovar_y'', TOK_BINARY_OPERATION TOK_BINOP_ADD (TOK_VAR ''autovar_x'') (TOK_NUMBER ''1'' (SizeStr ''8'' 8))]]) @ ''\<newline>''
                @ spaces 2 @ ''auto '' @ chk @ '' = [&](Varnode* '' @ l
                @ '', Varnode* '' @ r @ '') -> int4 {\<newline>''
                @ concat (map (\<lambda>out. out @ ''\<newline>'') outs)
                @ spaces 2 @ ''  return 1;\<newline>''
                @ spaces 2 @ ''};\<newline>\<newline>''
                @ spaces 2 @ (if a \<notin> declared_vars e' then ''Varnode* '' else [])
                @ a @ '' = '' @ ''op'' @ ''->getIn(0);\<newline>''
                @ spaces 2 @ (if b \<notin> declared_vars e' then ''Varnode* '' else [])
                @ b @ '' = '' @ ''op'' @ ''->getIn(1);\<newline>''
                @ spaces 2 @ ''if ((! '' @ chk @ ''('' @ a @ '', '' @ b
                @ '')) && (! '' @ chk @ ''('' @ b @ '', '' @ a @ '')))\<newline>''
                @ spaces 2 @ ''  return 0;\<newline>'')" by blast
  with run c show "\<exists>e'. emit_check_opcode_children Emitter_init ''op'' (TOK_OPCODE ''INT_ADD'' [TOK_VAR ''autovar_x'', TOK_OPCODE ''INT_SUB'' [TOK_VAR ''autovar_y'', TOK_BINARY_OPERATION TOK_BINOP_ADD (TOK_VAR ''autovar_x'') (TOK_NUMBER ''1'' (SizeStr ''8'' 8))]]) 2 = Inr ((''\<newline>''
        @ ''  // Checks INT_ADD(x, INT_SUB(y, x + 1)))\<newline>''
        @ ''  auto check_add_0 = [&](Varnode* autovar_left_0, Varnode* autovar_right_0) -> int4 {\<newline>''
        @ ''    Varnode* autovar_x = autovar_left_0;\<newline>''
        @ ''\<newline>''
        @ ''    if (! autovar_right_0->isWritten()) return 0;\<newline>''
        @ ''    PcodeOp* temp_pcode_0 = autovar_right_0->getDef();\<newline>''
        @ ''    if (temp_pcode_0->code() != CPUI_INT_SUB) return 0;\<newline>''
        @ ''\<newline>''
        @ ''    // Checks INT_SUB(y, x + 1))\<newline>''
        @ ''    Varnode* autovar_y = temp_pcode_0->getIn(0);\<newline>''
        @ ''\<newline>''
        @ ''    if (! temp_pcode_0->getIn(1)->constantMatch((autovar_x + 1))) return 0;\<newline>''
        @ ''\<newline>''
        @ ''\<newline>''
        @ ''    return 1;\<newline>''
        @ ''  };\<newline>''
        @ ''\<newline>''
        @ ''  Varnode* autovar_0 = op->getIn(0);\<newline>''
        @ ''  Varnode* autovar_1 = op->getIn(1);\<newline>''
        @ ''  if ((! check_add_0(autovar_0, autovar_1)) && (! check_add_0(autovar_1, autovar_0)))\<newline>''
        @ ''    return 0;\<newline>''), e')
      \<and> ''INT_ADD'' \<in> set COMMUTATIVE_OP_NAMES
      \<and> (\<exists>chk l r a b e1 e2 e3 e4 e5 outs es.
              get_free_name Emitter_init (''check_'' @ rsplit_last (lower ''INT_ADD'')) = Inr (chk, e1)
            \<and> get_free_name e1 ''autovar_left'' = Inr (l, e2)
            \<and> get_free_name e2 ''autovar_right'' = Inr (r, e3)
            \<and> get_free_name e4 ''autovar'' = Inr (a, e5)
            \<and> get_free_name e5 ''autovar'' = Inr (b, e')
            \<and> distinct [chk, l, r, a, b]
            \<and> length [TOK_VAR ''autovar_x'', TOK_OPCODE ''INT_SUB'' [TOK_VAR ''autovar_y'', TOK_BINARY_OPERATION TOK_BINOP_ADD (TOK_VAR ''autovar_x'') (TOK_NUMBER ''1'' (SizeStr ''8'' 8))]] \<le> 2 \<and> length outs = length [TOK_VAR ''autovar_x'', TOK_OPCODE ''INT_SUB'' [TOK_VAR ''autovar_y'', TOK_BINARY_OPERATION TOK_BINOP_ADD (TOK_VAR ''autovar_x'') (TOK_NUMBER ''1'' (SizeStr ''8'' 8))]] \<and> length es = Suc (length [TOK_VAR ''autovar_x'', TOK_OPCODE ''INT_SUB'' [TOK_VAR ''autovar_y'', TOK_BINARY_OPERATION TOK_BINOP_ADD (TOK_VAR ''autovar_x'') (TOK_NUMBER ''1'' (SizeStr ''8'' 8))]])
            \<and> es ! 0 = e3 \<and> es ! length [TOK_VAR ''autovar_x'', TOK_OPCODE ''INT_SUB'' [TOK_VAR ''autovar_y'', TOK_BINARY_OPERATION TOK_BINOP_ADD (TOK_VAR ''autovar_x'') (TOK_NUMBER ''1'' (SizeStr ''8'' 8))]] = e4
            \<and> (\<forall>j<length [TOK_VAR ''autovar_x'', TOK_OPCODE ''INT_SUB'' [TOK_VAR ''autovar_y'', TOK_BINARY_OPERATION TOK_BINOP_ADD (TOK_VAR ''autovar_x'') (TOK_NUMBER ''1'' (SizeStr ''8'' 8))]].
                  checked_against (es ! j) ([l, r] ! j) True ([TOK_VAR ''autovar_x'', TOK_OPCODE ''INT_SUB'' [TOK_VAR ''autovar_y'', TOK_BINARY_OPERATION TOK_BINOP_ADD (TOK_VAR ''autovar_x'') (TOK_NUMBER ''1'' (SizeStr ''8'' 8))]] ! j) (2 + 2)
                    (outs ! j) (es ! Suc j))
            \<and> (''\<newline>''
        @ ''  // Checks INT_ADD(x, INT_SUB(y, x + 1)))\<newline>''
        @ ''  auto check_add_0 = [&](Varnode* autovar_left_0, Varnode* autovar_right_0) -> int4 {\<newline>''
        @ ''    Varnode* autovar_x = autovar_left_0;\<newline>''
        @ ''\<newline>''
        @ ''    if (! autovar_right_0->isWritten()) return 0;\<newline>''
        @ ''    PcodeOp* temp_pcode_0 = autovar_right_0->getDef();\<newline>''
        @ ''    if (temp_pcode_0->code() != CPUI_INT_SUB) return 0;\<newline>''
        @ ''\<newline>''
        @ ''    // Checks INT_SUB(y, x + 1))\<newline>''
        @ ''    Varnode* autovar_y = temp_pcode_0->getIn(0);\<newline>''
        @ ''\<newline>''
        @ ''    if (! temp_pcode_0->getIn(1)->constantMatch((autovar_x + 1))) return 0;\<newline>''
        @ ''\<newline>''
        @ ''\<newline>''
        @ ''    return 1;\<newline>''
        @ ''  };\<newline>''
        @ ''\<newline>''
        @ ''  Varnode* autovar_0 = op->getIn(0);\<newline>''
        @ ''  Varnode* autovar_1 = op->getIn(1);\<newline>''
        @ ''  if ((! check_add_0(autovar_0, autovar_1)) && (! check_add_0(autovar_1, autovar_0)))\<newline>''
        @ ''    return 0;\<newline>'') = ''\<newline>'' @ spaces 2 @ ''// Checks ''
                @ to_pretty (TOK_OPCODE ''INT_ADD'' [TOK_VAR ''autovar_x'', TOK_OPCODE ''INT_SUB'' [TOK_VAR ''autovar_y'', TOK_BINARY_OPERATION TOK_BINOP_ADD (TOK_VAR ''autovar_x'') (TOK_NUMBER ''1'' (SizeStr ''8'' 8))]]) @ ''\<newline>''
                @ spaces 2 @ ''auto '' @ chk @ '' = [&](Varnode* '' @ l
                @ '', Varnode* '' @ r @ '') -> int4 {\<newline>''
                @ concat (map (\<lambda>out. out @ ''\<newline>'') outs)
                @ spaces 2 @ ''  return 1;\<newline>''
                @ spaces 2 @ ''};\<newline>\<newline>''
                @ spaces 2 @ (if a \<notin> declared_vars e' then ''Varnode* '' else [])
                @ a @ '' = '' @ ''op'' @ ''->getIn(0);\<newline>''
                @ spaces 2 @ (if b \<notin> declared_vars e' then ''Varnode* '' else [])
                @ b @ '' = '' @ ''op'' @ ''->getIn(1);\<newline>''
                @ spaces 2 @ ''if ((! '' @ chk @ ''('' @ a @ '', '' @ b
                @ '')) && (! '' @ chk @ ''('' @ b @ '', '' @ a @ '')))\<newline>''
                @ spaces 2 @ ''  return 0;\<newline>'')" by blast
next
  have "\<exists>e'. emit_check_opcode_children Emitter_init ''op'' (TOK_OPCODE ''INT_SUB'' [TOK_VAR ''autovar_x'', TOK_NUMBER ''1'' (SizeTok (TOK_SIZEOF (TOK_VAR ''autovar_x''))), TOK_OPCODE ''INT_LEFT'' [TOK_VAR ''autovar_x'', TOK_VAR ''autovar_y''], TOK_BINARY_OPERATION TOK_BINOP_ADD (TOK_VAR ''autovar_x'') (TOK_NUMBER ''1'' (SizeStr ''8'' 8))]) 2 = Inr ((''\<newline>''
        @ ''  // Checks INT_SUB(x, 1:|x|, INT_LEFT(x, y), x + 1))\<newline>''
        @ ''  Varnode* autovar_x = op->getIn(0);\<newline>''
        @ ''\<newline>''
        @ ''  uintb masked_const = 1 & ((((uintb) 1) << (8 * autovar_x->getSize())) - 1);\<newline>''
        @ ''  if (! op->getIn(1)->constantMatch(masked_const)) return 0;\<newline>''
        @ ''\<newline>''
        @ ''  Varnode* autovar_0 = op->getIn(2);\<newline>''
        @ ''  if (! autovar_0->isWritten()) return 0;\<newline>''
        @ ''  PcodeOp* temp_pcode_0 = autovar_0->getDef();\<newline>''
        @ ''  if (temp_pcode_0->code() != CPUI_INT_LEFT) return 0;\<newline>''
        @ ''\<newline>''
        @ ''  // Checks INT_LEFT(x, y)\<newline>''
        @ ''  if (temp_pcode_0->getIn(0) != autovar_x) return 0;\<newline>''
        @ ''\<newline>''
        @ ''  Varnode* autovar_y = temp_pcode_0->getIn(1);\<newline>''
        @ ''\<newline>''
        @ ''\<newline>''
        @ ''  if (! op->getIn(3)->constantMatch((autovar_x + 1))) return 0;\<newline>''
        @ ''\<newline>''), e')"
    by (simp add: eval_simps)
  then obtain e' where run: "emit_check_opcode_children Emitter_init ''op'' (TOK_OPCODE ''INT_SUB'' [TOK_VAR ''autovar_x'', TOK_NUMBER ''1'' (SizeTok (TOK_SIZEOF (TOK_VAR ''autovar_x''))), TOK_OPCODE ''INT_LEFT'' [TOK_VAR ''autovar_x'', TOK_VAR ''autovar_y''], TOK_BINARY_OPERATION TOK_BINOP_ADD (TOK_VAR ''autovar_x'') (TOK_NUMBER ''1'' (SizeStr ''8'' 8))]) 2 = Inr ((''\<newline>''
        @ ''  // Checks INT_SUB(x, 1:|x|, INT_LEFT(x, y), x + 1))\<newline>''
        @ ''  Varnode* autovar_x = op->getIn(0);\<newline>''
        @ ''\<newline>''
        @ ''  uintb masked_const = 1 & ((((uintb) 1) << (8 * autovar_x->getSize())) - 1);\<newline>''
        @ ''  if (! op->getIn(1)->constantMatch(masked_const)) return 0;\<newline>''
        @ ''\<newline>''
        @ ''  Varnode* autovar_0 = op->getIn(2);\<newline>''
        @ ''  if (! autovar_0->isWritten()) return 0;\<newline>''
        @ ''  PcodeOp* temp_pcode_0 = autovar_0->getDef();\<newline>''
        @ ''  if (temp_pcode_0->code() != CPUI_INT_LEFT) return 0;\<newline>''
        @ ''\<newline>''
        @ ''  // Checks INT_LEFT(x, y)\<newline>''
        @ ''  if (temp_pcode_0->getIn(0) != autovar_x) return 0;\<newline>''
        @ ''\<newline>''
        @ ''  Varnode* autovar_y = temp_pcode_0->getIn(1);\<newline>''
        @ ''\<newline>''
        @ ''\<newline>''
        @ ''  if (! op->getIn(3)->constantMatch((autovar_x + 1))) return 0;\<newline>''
        @ ''\<newline>''), e')" ..
  have c: "''INT_SUB'' \<notin> set COMMUTATIVE_OP_NAMES"
    by (simp add: COMMUTATIVE_OP_NAMES_def)
  from commutative_both_orderings_else_textual [OF run] c
  have "(\<exists>outs es.
              length outs = length [TOK_VAR ''autovar_x'', TOK_NUMBER ''1'' (SizeTok (TOK_SIZEOF (TOK_VAR ''autovar_x''))), TOK_OPCODE ''INT_LEFT'' [TOK_VAR ''autovar_x'', TOK_VAR ''autovar_y''], TOK_BINARY_OPERATION TOK_BINOP_ADD (TOK_VAR ''autovar_x'') (TOK_NUMBER ''1'' (SizeStr ''8'' 8))] \<and> length es = Suc (length [TOK_VAR ''autovar_x'', TOK_NUMBER ''1'' (SizeTok (TOK_SIZEOF (TOK_VAR ''autovar_x''))), TOK_OPCODE ''INT_LEFT'' [TOK_VAR ''autovar_x'', TOK_VAR ''autovar_y''], TOK_BINARY_OPERATION TOK_BINOP_ADD (TOK_VAR ''autovar_x'') (TOK_NUMBER ''1'' (SizeStr ''8'' 8))])
            \<and> es ! 0 = Emitter_init \<and> es ! length [TOK_VAR ''autovar_x'', TOK_NUMBER ''1'' (SizeTok (TOK_SIZEOF (TOK_VAR ''autovar_x''))), TOK_OPCODE ''INT_LEFT'' [TOK_VAR ''autovar_x'', TOK_VAR ''autovar_y''], TOK_BINARY_OPERATION TOK_BINOP_ADD (TOK_VAR ''autovar_x'') (TOK_NUMBER ''1'' (SizeStr ''8'' 8))] = e'
            \<and> (\<forall>j<length [TOK_VAR ''autovar_x'', TOK_NUMBER ''1'' (SizeTok (TOK_SIZEOF (TOK_VAR ''autovar_x''))), TOK_OPCODE ''INT_LEFT'' [TOK_VAR ''autovar_x'', TOK_VAR ''autovar_y''], TOK_BINARY_OPERATION TOK_BINOP_ADD (TOK_VAR ''autovar_x'') (TOK_NUMBER ''1'' (SizeStr ''8'' 8))].
                  checked_against (es ! j) (''op'' @ ''->getIn('' @ str_nat j @ '')'') False
                    ([TOK_VAR ''autovar_x'', TOK_NUMBER ''1'' (SizeTok (TOK_SIZEOF (TOK_VAR ''autovar_x''))), TOK_OPCODE ''INT_LEFT'' [TOK_VAR ''autovar_x'', TOK_VAR ''autovar_y''], TOK_BINARY_OPERATION TOK_BINOP_ADD (TOK_VAR ''autovar_x'') (TOK_NUMBER ''1'' (SizeStr ''8'' 8))] ! j) 2 (outs ! j) (es ! Suc j))
            \<and> (''\<newline>''
        @ ''  // Checks INT_SUB(x, 1:|x|, INT_LEFT(x, y), x + 1))\<newline>''
        @ ''  Varnode* autovar_x = op->getIn(0);\<newline>''
        @ ''\<newline>''
        @ ''  uintb masked_const = 1 & ((((uintb) 1) << (8 * autovar_x->getSize())) - 1);\<newline>''
        @ ''  if (! op->getIn(1)->constantMatch(masked_const)) return 0;\<newline>''
        @ ''\<newline>''
        @ ''  Varnode* autovar_0 = op->getIn(2);\<newline>''
        @ ''  if (! autovar_0->isWritten()) return 0;\<newline>''
        @ ''  PcodeOp* temp_pcode_0 = autovar_0->getDef();\<newline>''
        @ ''  if (temp_pcode_0->code() != CPUI_INT_LEFT) return 0;\<newline>''
        @ ''\<newline>''
        @ ''  // Checks INT_LEFT(x, y)\<newline>''
        @ ''  if (temp_pcode_0->getIn(0) != autovar_x) return 0;\<newline>''
        @ ''\<newline>''
        @ ''  Varnode* autovar_y = temp_pcode_0->getIn(1);\<newline>''
        @ ''\<newline>''
        @ ''\<newline>''
        @ ''  if (! op->getIn(3)->constantMatch((autovar_x + 1))) return 0;\<newline>''
        @ ''\<newline>'') = ''\<newline>'' @ spaces 2 @ ''// Checks ''
                @ to_pretty (TOK_OPCODE ''INT_SUB'' [TOK_VAR ''autovar_x'', TOK_NUMBER ''1'' (SizeTok (TOK_SIZEOF (TOK_VAR ''autovar_x''))), TOK_OPCODE ''INT_LEFT'' [TOK_VAR ''autovar_x'', TOK_VAR ''autovar_y''], TOK_BINARY_OPERATION TOK_BINOP_ADD (TOK_VAR ''autovar_x'') (TOK_NUMBER ''1'' (SizeStr ''8'' 8))]) @ ''\<newline>''
                @ concat (map (\<lambda>out. out @ ''\<newline>'') outs))" by blast
  with run c show "\<exists>e'. emit_check_opcode_children Emitter_init ''op'' (TOK_OPCODE ''INT_SUB'' [TOK_VAR ''autovar_x'', TOK_NUMBER ''1'' (SizeTok (TOK_SIZEOF (TOK_VAR ''autovar_x''))), TOK_OPCODE ''INT_LEFT'' [TOK_VAR ''autovar_x'', TOK_VAR ''autovar_y''], TOK_BINARY_OPERATION TOK_BINOP_ADD (TOK_VAR ''autovar_x'') (TOK_NUMBER ''1'' (SizeStr ''8'' 8))]) 2 = Inr ((''\<newline>''
        @ ''  // Checks INT_SUB(x, 1:|x|, INT_LEFT(x, y), x + 1))\<newline>''
        @ ''  Varnode* autovar_x = op->getIn(0);\<newline>''
        @ ''\<newline>''
        @ ''  uintb masked_const = 1 & ((((uintb) 1) << (8 * autovar_x->getSize())) - 1);\<newline>''
        @ ''  if (! op->getIn(1)->constantMatch(masked_const)) return 0;\<newline>''
        @ ''\<newline>''
        @ ''  Varnode* autovar_0 = op->getIn(2);\<newline>''
        @ ''  if (! autovar_0->isWritten()) return 0;\<newline>''
        @ ''  PcodeOp* temp_pcode_0 = autovar_0->getDef();\<newline>''
        @ ''  if (temp_pcode_0->code() != CPUI_INT_LEFT) return 0;\<newline>''
        @ ''\<newline>''
        @ ''  // Checks INT_LEFT(x, y)\<newline>''
        @ ''  if (temp_pcode_0->getIn(0) != autovar_x) return 0;\<newline>''
        @ ''\<newline>''
        @ ''  Varnode* autovar_y = temp_pcode_0->getIn(1);\<newline>''
        @ ''\<newline>''
        @ ''\<newline>''
        @ ''  if (! op->getIn(3)->constantMatch((autovar_x + 1))) return 0;\<newline>''
        @ ''\<newline>''), e')
      \<and> ''INT_SUB'' \<notin> set COMMUTATIVE_OP_NAMES
      \<and> (\<exists>outs es.
              length outs = length [TOK_VAR ''autovar_x'', TOK_NUMBER ''1'' (SizeTok (TOK_SIZEOF (TOK_VAR ''autovar_x''))), TOK_OPCODE ''INT_LEFT'' [TOK_VAR ''autovar_x'', TOK_VAR ''autovar_y''], TOK_BINARY_OPERATION TOK_BINOP_ADD (TOK_VAR ''autovar_x'') (TOK_NUMBER ''1'' (SizeStr ''8'' 8))] \<and> length es = Suc (length [TOK_VAR ''autovar_x'', TOK_NUMBER ''1'' (SizeTok (TOK_SIZEOF (TOK_VAR ''autovar_x''))), TOK_OPCODE ''INT_LEFT'' [TOK_VAR ''autovar_x'', TOK_VAR ''autovar_y''], TOK_BINARY_OPERATION TOK_BINOP_ADD (TOK_VAR ''autovar_x'') (TOK_NUMBER ''1'' (SizeStr ''8'' 8))])
            \<and> es ! 0 = Emitter_init \<and> es ! length [TOK_VAR ''autovar_x'', TOK_NUMBER ''1'' (SizeTok (TOK_SIZEOF (TOK_VAR ''autovar_x''))), TOK_OPCODE ''INT_LEFT'' [TOK_VAR ''autovar_x'', TOK_VAR ''autovar_y''], TOK_BINARY_OPERATION TOK_BINOP_ADD (TOK_VAR ''autovar_x'') (TOK_NUMBER ''1'' (SizeStr ''8'' 8))] = e'
            \<and> (\<forall>j<length [TOK_VAR ''autovar_x'', TOK_NUMBER ''1'' (SizeTok (TOK_SIZEOF (TOK_VAR ''autovar_x''))), TOK_OPCODE ''INT_LEFT'' [TOK_VAR ''autovar_x'', TOK_VAR ''autovar_y''], TOK_BINARY_OPERATION TOK_BINOP_ADD (TOK_VAR ''autovar_x'') (TOK_NUMBER ''1'' (SizeStr ''8'' 8))].
                  checked_against (es ! j) (''op'' @ ''->getIn('' @ str_nat j @ '')'') False
                    ([TOK_VAR ''autovar_x'', TOK_NUMBER ''1'' (SizeTok (TOK_SIZEOF (TOK_VAR ''autovar_x''))), TOK_OPCODE ''INT_LEFT'' [TOK_VAR ''autovar_x'', TOK_VAR ''autovar_y''], TOK_BINARY_OPERATION TOK_BINOP_ADD (TOK_VAR ''autovar_x'') (TOK_NUMBER ''1'' (SizeStr ''8'' 8))] ! j) 2 (outs ! j) (es ! Suc j))
            \<and> (''\<newline>''
        @ ''  // Checks INT_SUB(x, 1:|x|, INT_LEFT(x, y), x + 1))\<newline>''
        @ ''  Varnode* autovar_x = op->getIn(0);\<newline>''
        @ ''\<newline>''
        @ ''  uintb masked_const = 1 & ((((uintb) 1) << (8 * autovar_x->getSize())) - 1);\<newline>''
        @ ''  if (! op->getIn(1)->constantMatch(masked_const)) return 0;\<newline>''
        @ ''\<newline>''
        @ ''  Varnode* autovar_0 = op->getIn(2);\<newline>''
        @ ''  if (! autovar_0->isWritten()) return 0;\<newline>''
        @ ''  PcodeOp* temp_pcode_0 = autovar_0->getDef();\<newline>''
        @ ''  if (temp_pcode_0->code() != CPUI_INT_LEFT) return 0;\<newline>''
        @ ''\<newline>''
        @ ''  // Checks INT_LEFT(x, y)\<newline>''
        @ ''  if (temp_pcode_0->getIn(0) != autovar_x) return 0;\<newline>''
        @ ''\<newline>''
        @ ''  Varnode* autovar_y = temp_pcode_0->getIn(1);\<newline>''
        @ ''\<newline>''
        @ ''\<newline>''
        @ ''  if (! op->getIn(3)->constantMatch((autovar_x + 1))) return 0;\<newline>''
        @ ''\<newline>'') = ''\<newline>'' @ spaces 2 @ ''// Checks ''
                @ to_pretty (TOK_OPCODE ''INT_SUB'' [TOK_VAR ''autovar_x'', TOK_NUMBER ''1'' (SizeTok (TOK_SIZEOF (TOK_VAR ''autovar_x''))), TOK_OPCODE ''INT_LEFT'' [TOK_VAR ''autovar_x'', TOK_VAR ''autovar_y''], TOK_BINARY_OPERATION TOK_BINOP_ADD (TOK_VAR ''autovar_x'') (TOK_NUMBER ''1'' (SizeStr ''8'' 8))]) @ ''\<newline>''
                @ concat (map (\<lambda>out. out @ ''\<newline>'') outs))" by blast
qed

section \<open>Alternatives in a constraint\<close>

text \<open>
  Claim C4 (\<open>OpcodeOr\<close>). The claim asks for a helper and a closing loop that make the
  matcher fail exactly when all alternatives fail. The open phase does emit one branch
  per alternative (index 0 under \<open>if\<close>, the last under \<open>else\<close>), and the close phase
  the loop over \<open>0..N-1\<close> with \<open>if (it == N) return 0;\<close>. But the helper the code emits
  has no \<open>return 1;\<close> after its branches, so the call \<open>or_func_0(i_0)\<close> that the loop
  tests never yields a success value; the helper is closed by a bare \<open>}\<close>; and
  \<open>to_check_c_end\<close> ends with one more \<open>}\<close> that nothing opened. For the rule
  \<open>Foo: INT_SUB(x, y) :- { y = INT_SUB(a, b) | INT_LEFT(a, b) } => COPY(x)\<close> the emitted
  function is the text below, with five opening and six closing braces. (The helper that
  \<open>_emit_check_opcode_children\<close> emits for a commutative opcode does end in
  \<open>return 1;\<close> and \<open>};\<close>.)
\<close>

theorem opcode_or_helper_without_success_return:
  "\<exists>text e'. emit_apply_op Emitter_init ''Foo''
       (TOK_OPCODE ''INT_SUB'' [TOK_VAR ''autovar_x'', TOK_VAR ''autovar_y''])
       [TOK_CONSTRAINT (TOK_VAR ''autovar_y'') ''=''
          (TOK_OPCODE_OR
             [TOK_OPCODE ''INT_SUB'' [TOK_VAR ''autovar_a'', TOK_VAR ''autovar_b''],
              TOK_OPCODE ''INT_LEFT'' [TOK_VAR ''autovar_a'', TOK_VAR ''autovar_b'']]) None]
       (TOK_OPCODE ''COPY'' [TOK_VAR ''autovar_x'']) = Inr (text, e')
     \<and> text = ''int4 RuleSimplifyFoo::applyOp(PcodeOp *op, Funcdata &data)\<newline>''
         @ ''\<newline>''
         @ ''{\<newline>''
         @ ''\<newline>''
         @ ''  // Remaining checks on the match expression\<newline>''
         @ ''  Varnode* autovar_x;\<newline>''
         @ ''\<newline>''
         @ ''  // Checks INT_SUB(x, y)\<newline>''
         @ ''  autovar_x = op->getIn(0);\<newline>''
         @ ''\<newline>''
         @ ''  Varnode* autovar_y = op->getIn(1);\<newline>''
         @ ''\<newline>''
         @ ''\<newline>''
         @ ''  // Some more checks for the extra constraints\<newline>''
         @ ''\<newline>''
         @ ''  auto or_func_0 = [&](int4 option_id_0) -> int4 {\<newline>''
         @ ''    if (option_id_0 == 0) {\<newline>''
         @ ''      if (! autovar_y->isWritten()) return 0;\<newline>''
         @ ''      PcodeOp* temp_pcode_0 = autovar_y->getDef();\<newline>''
         @ ''      if (temp_pcode_0->code() != CPUI_INT_SUB) return 0;\<newline>''
         @ ''\<newline>''
         @ ''      // Checks INT_SUB(a, b)\<newline>''
         @ ''      Varnode* autovar_a = temp_pcode_0->getIn(0);\<newline>''
         @ ''\<newline>''
         @ ''      Varnode* autovar_b = temp_pcode_0->getIn(1);\<newline>''
         @ ''\<newline>''
         @ ''    } else {\<newline>''
         @ ''      if (! autovar_y->isWritten()) return 0;\<newline>''
         @ ''      PcodeOp* temp_pcode_1 = autovar_y->getDef();\<newline>''
         @ ''      if (temp_pcode_1->code() != CPUI_INT_LEFT) return 0;\<newline>''
         @ ''\<newline>''
         @ ''      // Checks INT_LEFT(a, b)\<newline>''
         @ ''      if (temp_pcode_1->getIn(0) != autovar_a) return 0;\<newline>''
         @ ''\<newline>''
         @ ''      if (temp_pcode_1->getIn(1) != autovar_b) return 0;\<newline>''
         @ ''\<newline>''
         @ ''    }\<newline>''
         @ ''\<newline>''
         @ ''  }\<newline>''
         @ ''\<newline>''
         @ ''  int4 i_0;\<newline>''
         @ ''  for (i_0 = 0; i_0 < 2; i_0++) {;\<newline>''
         @ ''    if (or_func_0(i_0) != 0)\<newline>''
         @ ''      break;\<newline>''
         @ ''  }\<newline>''
         @ ''\<newline>''
         @ ''  if (i_0 == 2)\<newline>''
         @ ''    return 0;\<newline>''
         @ ''  }\<newline>''
         @ ''\<newline>''
         @ ''  // matched this PcodeOp - replace this with the simplified structure\<newline>''
         @ ''  data.opSetOpcode(op, CPUI_COPY);\<newline>''
         @ ''  data.opRemoveInput(op, 1);\<newline>''
         @ ''  data.opSetInput(op, autovar_x, 0);\<newline>''
         @ ''\<newline>''
         @ ''  return 1;\<newline>''
         @ ''}\<newline>''
     \<and> count_list text (CHR ''{'') = 5
     \<and> count_list text (CHR ''}'') = 6"
  (is "\<exists>text e'. ?run text e' \<and> text = ?T \<and> _ \<and> _")
proof -
  have "\<exists>e'. ?run ?T e'"
    by (simp add: eval_simps)
  then obtain e' where run: "?run ?T e'" ..
  have l: "count_list ?T (CHR ''{'') = 5"
    by code_simp
  have r: "count_list ?T (CHR ''}'') = 6"
    by code_simp
  show ?thesis
    by (rule exI [of _ ?T], rule exI [of _ e']) (intro conjI run refl l r)
qed

end
